theory Spec2Isabelle
  imports Complex_Main
begin

section \<open>Spendify backend: budget aggregate, insights and alerts\<close>

text \<open>
  The development embeds the controllers and services of the backend that keep the
  per-month budget aggregate in step with the transaction ledger and that derive the
  forecast, the personality, the challenges and the persisted alerts.

  Conventions of the embedding.
  \<^item> A JavaScript number is an exact rational (\<open>rat\<close>). The code computes in double
    precision, whose sums and differences agree with the exact ones on whole numbers up
    to \<open>2^53\<close> and are rounded elsewhere; a property that needs an exact sum is stated for
    such whole numbers, and the amounts of the examples are whole numbers.
    \<open>Math.round\<close> is \<open>\<lfloor>x + 1/2\<rfloor>\<close>; where a number can be \<open>NaN\<close>, that is \<open>None\<close>.
  \<^item> A \<open>Date\<close> is its time value, the milliseconds since the epoch (\<open>int\<close>). The local
    time zone of the server is a fixed offset \<open>tz\<close> in minutes east of UTC (no daylight
    saving); the getters and the constructor with components work in local time, a
    date-only ISO string is read as UTC. The current time \<open>now\<close> is a parameter.
  \<^item> Division is the division of rationals. The code divides by the limit of a budget,
    which the budget validator keeps positive, and by totals of positive amounts; a
    divisor 0, where JavaScript yields \<open>Infinity\<close> or \<open>NaN\<close>, is outside the model unless
    the code tests for it.
  \<^item> The month key \<open>YYYY-MM\<close> is the pair (year, month number) that the string prints.
  \<^item> The collections of the document store are lists (transactions, alerts) and a map
    (budgets, which carry a unique index on user and month). \<open>create\<close> stores the
    paths that the schema of the collection declares, queries match on the paths of their
    filter, and \<open>save\<close> runs the validators that the schemas of the repository declare.
  \<^item> The controllers hand \<open>req.user.id\<close>, the id of the user as a string, to the query
    methods of the models, which cast it to the \<open>ObjectId\<close> of the schema path; there the
    user is the id itself. The alert service also uses its argument in aggregation
    pipelines, which are not cast; there the argument is a \<open>user_ref\<close>.
  \<^item> An object literal used as a dictionary is the list of its own properties in the
    order in which they are enumerated, read and written as JavaScript does it (members
    inherited from \<open>Object.prototype\<close> included).
  \<^item> A controller returns its response (\<open>Inl\<close> for a thrown error) together with the
    store as it is when the request ends, so that writes made before a throw stay visible.
\<close>

subsection \<open>Dates\<close>

type_synonym timestamp = int
type_synonym month_key = "int \<times> int"

definition msPerDay :: int where
  "msPerDay = 24 * 60 * 60 * 1000"

definition DayFromYear :: "int \<Rightarrow> int" where
  "DayFromYear y = 365 * (y - 1970) + (y - 1969) div 4 - (y - 1901) div 100 + (y - 1601) div 400"

definition InLeapYear :: "int \<Rightarrow> bool" where
  "InLeapYear y \<longleftrightarrow> y mod 4 = 0 \<and> (y mod 100 \<noteq> 0 \<or> y mod 400 = 0)"

definition YearFromDay :: "int \<Rightarrow> int" where
  "YearFromDay d =
     (let g = 1970 + (400 * d) div 146097
      in if d < DayFromYear g then g - 1
         else if DayFromYear (g + 1) \<le> d then g + 1
         else g)"

text \<open>Day number within the year at which each month (0 = January) starts.\<close>

definition monthStart :: "bool \<Rightarrow> int \<Rightarrow> int" where
  "monthStart leap m =
     (let l = (if leap then 1 else 0)
      in if m = 0 then 0 else if m = 1 then 31 else if m = 2 then 59 + l
         else if m = 3 then 90 + l else if m = 4 then 120 + l else if m = 5 then 151 + l
         else if m = 6 then 181 + l else if m = 7 then 212 + l else if m = 8 then 243 + l
         else if m = 9 then 273 + l else if m = 10 then 304 + l else 334 + l)"

definition MonthFromDay :: "int \<Rightarrow> int" where
  "MonthFromDay d =
     (let y = YearFromDay d; leap = InLeapYear y; w = d - DayFromYear y
      in if w < monthStart leap 1 then 0 else if w < monthStart leap 2 then 1
         else if w < monthStart leap 3 then 2 else if w < monthStart leap 4 then 3
         else if w < monthStart leap 5 then 4 else if w < monthStart leap 6 then 5
         else if w < monthStart leap 7 then 6 else if w < monthStart leap 8 then 7
         else if w < monthStart leap 9 then 8 else if w < monthStart leap 10 then 9
         else if w < monthStart leap 11 then 10 else 11)"

definition DateFromDay :: "int \<Rightarrow> int" where
  "DateFromDay d =
     (let y = YearFromDay d
      in d - DayFromYear y - monthStart (InLeapYear y) (MonthFromDay d) + 1)"

text \<open>\<open>MakeDay\<close>: the month index may run over (12 is January of the next year) and the
  day of the month may be 0 (the last day of the month before).\<close>

definition MakeDay :: "int \<Rightarrow> int \<Rightarrow> int \<Rightarrow> int" where
  "MakeDay y m dt =
     (let ym = y + m div 12; mn = m mod 12
      in DayFromYear ym + monthStart (InLeapYear ym) mn + dt - 1)"

definition localDay :: "int \<Rightarrow> timestamp \<Rightarrow> int" where
  "localDay tz t = (t + tz * 60000) div msPerDay"

definition getFullYear :: "int \<Rightarrow> timestamp \<Rightarrow> int" where
  "getFullYear tz t = YearFromDay (localDay tz t)"

definition getMonth :: "int \<Rightarrow> timestamp \<Rightarrow> int" where
  "getMonth tz t = MonthFromDay (localDay tz t)"

definition getDate :: "int \<Rightarrow> timestamp \<Rightarrow> int" where
  "getDate tz t = DateFromDay (localDay tz t)"

text \<open>\<open>new Date(y, m, d, h, min, s, ms)\<close>: the components are local time.\<close>

definition newDateLocal :: "int \<Rightarrow> int \<Rightarrow> int \<Rightarrow> int \<Rightarrow> int \<Rightarrow> int \<Rightarrow> int \<Rightarrow> int \<Rightarrow> timestamp" where
  "newDateLocal tz y m d h mi s ms =
     MakeDay y m d * msPerDay + ((h * 60 + mi) * 60 + s) * 1000 + ms - tz * 60000"

text \<open>\<open>new Date(month + "-01")\<close>: a date-only ISO string is read as UTC midnight.\<close>

definition newDateMonthFirst :: "month_key \<Rightarrow> timestamp" where
  "newDateMonthFirst mk = MakeDay (fst mk) (snd mk - 1) 1 * msPerDay"

text \<open>The key \<open>`${d.getFullYear()}-${String(d.getMonth() + 1).padStart(2, "0")}`\<close>.\<close>

definition monthOf :: "int \<Rightarrow> timestamp \<Rightarrow> month_key" where
  "monthOf tz t = (getFullYear tz t, getMonth tz t + 1)"

definition getCurrentMonth :: "int \<Rightarrow> timestamp \<Rightarrow> month_key" where
  "getCurrentMonth tz now = monthOf tz now"

definition getRemainingDays :: "int \<Rightarrow> timestamp \<Rightarrow> int" where
  "getRemainingDays tz now =
     (let lastDay = newDateLocal tz (getFullYear tz now) (getMonth tz now + 1) 0 0 0 0 0
      in getDate tz lastDay - getDate tz now)"

definition Math_round :: "rat \<Rightarrow> int" where
  "Math_round x = \<lfloor>x + 1 / 2\<rfloor>"

subsection \<open>Documents and the store\<close>

type_synonym user_id = nat
type_synonym doc_id = nat

datatype error = ApiError nat string | ValidationError string | TypeError string

text \<open>\<open>models/Transaction.js\<close>\<close>

record transaction =
  t_id :: doc_id
  t_user :: user_id
  t_type :: string
  t_category :: string
  t_amount :: rat
  t_date :: timestamp
  t_note :: "string option"
  t_mood :: "string option"

definition moods :: "string list" where
  "moods = [''happy'', ''sad'', ''angry'', ''stressed'', ''bored'', ''excited'', ''neutral'']"

text \<open>The validators of the transaction schema, run by \<open>create\<close> and \<open>save\<close>.\<close>

definition transaction_valid :: "transaction \<Rightarrow> bool" where
  "transaction_valid t \<longleftrightarrow>
     (t_type t = ''income'' \<or> t_type t = ''expense'') \<and>
     t_category t \<noteq> [] \<and>
     0 < t_amount t \<and>
     (case t_mood t of None \<Rightarrow> True | Some m \<Rightarrow> m \<in> set moods)"

text \<open>The budget model: one document per user and month.\<close>

record budget =
  monthlyBudget :: rat
  spentSoFar :: rat

definition budget_valid :: "budget \<Rightarrow> bool" where
  "budget_valid b \<longleftrightarrow> 0 < monthlyBudget b"

text \<open>\<open>models/Alert.js\<close>, with the metadata paths of the schema that the budget and the
  trend generator write (\<open>budgetUsage\<close>, \<open>category\<close>, \<open>trendPercentage\<close>).\<close>

record alert =
  a_user :: user_id
  a_type :: string
  a_severity :: string
  a_message :: string
  a_budgetUsage :: "int option"
  a_category :: "string option"
  a_trendPercentage :: "int option"
  a_isRead :: bool

text \<open>The alert schema declares no path \<open>metadata.month\<close>. \<open>Alert.create\<close> drops what
  the schema does not declare, so no stored alert has a month, whatever the caller
  passed.\<close>

definition metadata_month :: "alert \<Rightarrow> month_key option" where
  "metadata_month a = None"

text \<open>The user argument of the alert service: the \<open>ObjectId\<close> of the user document
  (\<open>req.user._id\<close>) or its string (\<open>req.user.id\<close>). \<open>castId\<close> is the cast of the query
  methods; \<open>matchesUser\<close> is the comparison of an aggregation \<open>$match\<close> with the stored
  \<open>ObjectId\<close>, which a string never equals.\<close>

datatype user_ref = ObjectId user_id | IdString user_id

fun castId :: "user_ref \<Rightarrow> user_id" where
  "castId (ObjectId u) = u"
| "castId (IdString u) = u"

fun matchesUser :: "user_ref \<Rightarrow> user_id \<Rightarrow> bool" where
  "matchesUser (ObjectId u) stored = (stored = u)"
| "matchesUser (IdString u) stored = False"

record store =
  transactions :: "transaction list"
  budgets :: "user_id \<times> month_key \<Rightarrow> budget option"
  alerts :: "alert list"

text \<open>The request body of the transaction routes; an absent field is \<open>None\<close>.\<close>

record txn_body =
  b_amount :: "rat option"
  b_type :: "string option"
  b_category :: "string option"
  b_date :: "timestamp option"
  b_note :: "string option"
  b_mood :: "string option"

text \<open>A fresh document id.\<close>

definition fresh_id :: "transaction list \<Rightarrow> doc_id" where
  "fresh_id ts = Suc (fold max (map t_id ts) 0)"

definition findById :: "doc_id \<Rightarrow> transaction list \<Rightarrow> transaction option" where
  "findById i ts = find (\<lambda>t. t_id t = i) ts"

text \<open>\<open>budget.save()\<close>: validates, then writes the document.\<close>

definition Budget_save :: "user_id \<times> month_key \<Rightarrow> budget \<Rightarrow> store \<Rightarrow> error + store" where
  "Budget_save k b db =
     (if budget_valid b then Inr (db\<lparr>budgets := (budgets db)(k \<mapsto> b)\<rparr>)
      else Inl (ValidationError ''Monthly budget must be greater than 0''))"

subsection \<open>Transaction controller\<close>

text \<open>The forward step of add and of edit: \<open>budget.spentSoFar += Number(amount)\<close>
  on the budget of the transaction's month, when there is one.\<close>

definition applyBudgetImpact ::
  "int \<Rightarrow> user_id \<Rightarrow> string \<Rightarrow> timestamp \<Rightarrow> rat \<Rightarrow> store \<Rightarrow> error + store" where
  "applyBudgetImpact tz uid ty d a db =
     (if ty = ''expense'' then
        (case budgets db (uid, monthOf tz d) of
           None \<Rightarrow> Inr db
         | Some b \<Rightarrow> Budget_save (uid, monthOf tz d) (b\<lparr>spentSoFar := spentSoFar b + a\<rparr>) db)
      else Inr db)"

text \<open>The revert step of delete and of edit: subtract, and floor the result at zero.\<close>

definition revertBudgetImpact :: "int \<Rightarrow> user_id \<Rightarrow> transaction \<Rightarrow> store \<Rightarrow> error + store" where
  "revertBudgetImpact tz uid t db =
     (if t_type t = ''expense'' then
        (case budgets db (uid, monthOf tz (t_date t)) of
           None \<Rightarrow> Inr db
         | Some b \<Rightarrow>
             (let s = spentSoFar b - t_amount t;
                  s' = (if s < 0 then 0 else s)
              in Budget_save (uid, monthOf tz (t_date t)) (b\<lparr>spentSoFar := s'\<rparr>) db))
      else Inr db)"

text \<open>The document \<open>Transaction.create\<close> is given by add.\<close>

definition newTransaction ::
  "user_id \<Rightarrow> txn_body \<Rightarrow> store \<Rightarrow> rat \<Rightarrow> string \<Rightarrow> string \<Rightarrow> timestamp \<Rightarrow> transaction" where
  "newTransaction uid body db a ty c d =
     \<lparr>t_id = fresh_id (transactions db), t_user = uid, t_type = ty,
      t_category = c, t_amount = a, t_date = d,
      t_note = b_note body, t_mood = b_mood body\<rparr>"

definition addTransaction ::
  "int \<Rightarrow> user_id \<Rightarrow> txn_body \<Rightarrow> store \<Rightarrow> (error + transaction) \<times> store" where
  "addTransaction tz uid body db =
     (case (b_amount body, b_type body, b_category body, b_date body) of
        (Some a, Some ty, Some c, Some d) \<Rightarrow>
          if a = 0 \<or> ty = [] \<or> c = [] then
            (Inl (ApiError 400 ''Amount, type, category, and date are required''), db)
          else if a \<le> 0 then
            (Inl (ApiError 400 ''Amount must be greater than 0''), db)
          else if \<not> transaction_valid (newTransaction uid body db a ty c d) then
            (Inl (ValidationError ''Transaction validation failed''), db)
          else
            (let t = newTransaction uid body db a ty c d;
                 db1 = db\<lparr>transactions := transactions db @ [t]\<rparr>
             in case applyBudgetImpact tz uid ty d a db1 of
                  Inl e \<Rightarrow> (Inl e, db1)
                | Inr db2 \<Rightarrow> (Inr t, db2))
      | _ \<Rightarrow> (Inl (ApiError 400 ''Amount, type, category, and date are required''), db))"

definition deleteTransaction ::
  "int \<Rightarrow> user_id \<Rightarrow> doc_id \<Rightarrow> store \<Rightarrow> (error + unit) \<times> store" where
  "deleteTransaction tz uid i db =
     (case findById i (transactions db) of
        None \<Rightarrow> (Inl (ApiError 404 ''Transaction not found''), db)
      | Some t \<Rightarrow>
          if t_user t \<noteq> uid then
            (Inl (ApiError 401 ''Not authorized to delete this transaction''), db)
          else
            (case revertBudgetImpact tz uid t db of
               Inl e \<Rightarrow> (Inl e, db)
             | Inr db1 \<Rightarrow>
                 (Inr (), db1\<lparr>transactions := filter (\<lambda>x. t_id x \<noteq> i) (transactions db1)\<rparr>)))"

text \<open>The field updates of edit: \<open>x || transaction.x\<close> keeps the stored value when the
  body's value is absent or falsy (the number 0, the empty string); note and mood are
  replaced whenever they are present.\<close>

definition updateFields :: "txn_body \<Rightarrow> transaction \<Rightarrow> transaction" where
  "updateFields body t =
     t\<lparr>t_amount := (case b_amount body of Some a \<Rightarrow> if a = 0 then t_amount t else a
                                        | None \<Rightarrow> t_amount t),
       t_type := (case b_type body of Some ty \<Rightarrow> if ty = [] then t_type t else ty
                                    | None \<Rightarrow> t_type t),
       t_category := (case b_category body of Some c \<Rightarrow> if c = [] then t_category t else c
                                            | None \<Rightarrow> t_category t),
       t_date := (case b_date body of Some d \<Rightarrow> d | None \<Rightarrow> t_date t),
       t_note := (case b_note body of Some n \<Rightarrow> Some n | None \<Rightarrow> t_note t),
       t_mood := (case b_mood body of Some m \<Rightarrow> Some m | None \<Rightarrow> t_mood t)\<rparr>"

definition updateTransaction ::
  "int \<Rightarrow> user_id \<Rightarrow> doc_id \<Rightarrow> txn_body \<Rightarrow> store \<Rightarrow> (error + transaction) \<times> store" where
  "updateTransaction tz uid i body db =
     (case findById i (transactions db) of
        None \<Rightarrow> (Inl (ApiError 404 ''Transaction not found''), db)
      | Some t \<Rightarrow>
          if t_user t \<noteq> uid then
            (Inl (ApiError 401 ''Not authorized to update this transaction''), db)
          else
            (case revertBudgetImpact tz uid t db of
               Inl e \<Rightarrow> (Inl e, db)
             | Inr db1 \<Rightarrow>
                 (let t' = updateFields body t
                  in if \<not> transaction_valid t' then
                       (Inl (ValidationError ''Transaction validation failed''), db1)
                     else
                       (let db2 = db1\<lparr>transactions :=
                                     map (\<lambda>x. if t_id x = i then t' else x) (transactions db1)\<rparr>
                        in case applyBudgetImpact tz uid (t_type t') (t_date t') (t_amount t') db2 of
                             Inl e \<Rightarrow> (Inl e, db2)
                           | Inr db3 \<Rightarrow> (Inr t', db3)))))"

text \<open>A request to the transaction routes, and the store after a list of requests
  handled one after the other.\<close>

datatype request =
  Add user_id txn_body
| Delete user_id doc_id
| Update user_id doc_id txn_body

definition succeeded :: "error + 'a \<Rightarrow> bool" where
  "succeeded r = (case r of Inl e \<Rightarrow> False | Inr x \<Rightarrow> True)"

fun handle :: "int \<Rightarrow> request \<Rightarrow> store \<Rightarrow> bool \<times> store" where
  "handle tz (Add uid body) db = (case addTransaction tz uid body db of (r, db') \<Rightarrow> (succeeded r, db'))"
| "handle tz (Delete uid i) db = (case deleteTransaction tz uid i db of (r, db') \<Rightarrow> (succeeded r, db'))"
| "handle tz (Update uid i body) db =
     (case updateTransaction tz uid i body db of (r, db') \<Rightarrow> (succeeded r, db'))"

fun run :: "int \<Rightarrow> request list \<Rightarrow> store \<Rightarrow> store" where
  "run tz [] db = db"
| "run tz (r # rs) db = run tz rs (snd (handle tz r db))"

text \<open>Every request of the list is answered with success.\<close>

fun all_accepted :: "int \<Rightarrow> request list \<Rightarrow> store \<Rightarrow> bool" where
  "all_accepted tz [] db = True"
| "all_accepted tz (r # rs) db =
     (fst (handle tz r db) \<and> all_accepted tz rs (snd (handle tz r db)))"

text \<open>The sum of the amounts of a user's live expense transactions dated in a month.\<close>

definition liveExpenseSum :: "int \<Rightarrow> user_id \<Rightarrow> month_key \<Rightarrow> transaction list \<Rightarrow> rat" where
  "liveExpenseSum tz uid m ts =
     sum_list (map t_amount
       (filter (\<lambda>t. t_user t = uid \<and> t_type t = ''expense'' \<and> monthOf tz (t_date t) = m) ts))"

definition clampZero :: "rat \<Rightarrow> rat" where
  "clampZero x = (if x < 0 then 0 else x)"

subsection \<open>Budget controller\<close>

record budget_fields =
  bf_month :: month_key
  bf_monthlyBudget :: rat
  bf_spentSoFar :: rat
  bf_remaining :: rat
  bf_percentageUsed :: int
  bf_statusColor :: string

definition calculateBudgetFields :: "month_key \<Rightarrow> budget \<Rightarrow> budget_fields" where
  "calculateBudgetFields month b =
     (let remaining = monthlyBudget b - spentSoFar b;
          percentageUsed = Math_round (spentSoFar b / monthlyBudget b * 100);
          statusColor = (if percentageUsed > 95 then ''red''
                         else if percentageUsed > 80 then ''orange''
                         else if percentageUsed > 50 then ''yellow''
                         else ''green'')
      in \<lparr>bf_month = month, bf_monthlyBudget = monthlyBudget b, bf_spentSoFar = spentSoFar b,
          bf_remaining = remaining, bf_percentageUsed = percentageUsed,
          bf_statusColor = statusColor\<rparr>)"

text \<open>The window of the month scan: from \<open>new Date(month + "-01")\<close> to the last
  millisecond of the last day of the month of that date.\<close>

definition monthStartDate :: "month_key \<Rightarrow> timestamp" where
  "monthStartDate month = newDateMonthFirst month"

definition monthEndDate :: "int \<Rightarrow> month_key \<Rightarrow> timestamp" where
  "monthEndDate tz month =
     (let startDate = monthStartDate month
      in newDateLocal tz (getFullYear tz startDate) (getMonth tz startDate + 1) 0 23 59 59 999)"

definition monthExpenses :: "int \<Rightarrow> user_id \<Rightarrow> month_key \<Rightarrow> transaction list \<Rightarrow> transaction list" where
  "monthExpenses tz uid month ts =
     filter (\<lambda>t. t_user t = uid \<and> t_type t = ''expense'' \<and>
                 monthStartDate month \<le> t_date t \<and> t_date t \<le> monthEndDate tz month) ts"

text \<open>\<open>xs.reduce((sum, txn) => sum + txn.amount, 0)\<close>\<close>

definition sumAmounts :: "transaction list \<Rightarrow> rat" where
  "sumAmounts ts = foldl (\<lambda>sum txn. sum + t_amount txn) 0 ts"

definition setBudget ::
  "int \<Rightarrow> timestamp \<Rightarrow> user_id \<Rightarrow> rat option \<Rightarrow> store \<Rightarrow> (error + budget_fields) \<times> store" where
  "setBudget tz now uid body db =
     (case body of
        None \<Rightarrow> (Inl (ApiError 400 ''Please provide a valid monthly budget greater than 0''), db)
      | Some mb \<Rightarrow>
          if mb = 0 \<or> mb \<le> 0 then
            (Inl (ApiError 400 ''Please provide a valid monthly budget greater than 0''), db)
          else
            (let month = getCurrentMonth tz now;
                 expenses = monthExpenses tz uid month (transactions db);
                 spent = sumAmounts expenses;
                 b = (case budgets db (uid, month) of
                        Some old \<Rightarrow> old\<lparr>monthlyBudget := mb, spentSoFar := spent\<rparr>
                      | None \<Rightarrow> \<lparr>monthlyBudget = mb, spentSoFar = spent\<rparr>)
             in case Budget_save (uid, month) b db of
                  Inl e \<Rightarrow> (Inl e, db)
                | Inr db' \<Rightarrow> (Inr (calculateBudgetFields month b), db')))"

subsection \<open>Numbers in message templates\<close>

function show_nat :: "nat \<Rightarrow> string" where
  "show_nat n =
     (if n < 10 then [''0123456789'' ! n]
      else show_nat (n div 10) @ [''0123456789'' ! (n mod 10)])"
  by pat_completeness auto
termination
  by (relation "measure id") auto

definition show_int :: "int \<Rightarrow> string" where
  "show_int i = (if i < 0 then CHR ''-'' # show_nat (nat (- i)) else show_nat (nat i))"

subsection \<open>Forecast\<close>

text \<open>The expense transactions of a user dated at or after a point in time:
  \<open>Transaction.find({user, type: "expense", date: {$gte: since}})\<close>.\<close>

definition expensesSince :: "user_id \<Rightarrow> timestamp \<Rightarrow> transaction list \<Rightarrow> transaction list" where
  "expensesSince uid since ts =
     filter (\<lambda>t. t_user t = uid \<and> t_type t = ''expense'' \<and> since \<le> t_date t) ts"

text \<open>\<open>d.setDate(d.getDate() - n)\<close> moves the date by whole days of local time.\<close>

definition daysAgo :: "int \<Rightarrow> timestamp \<Rightarrow> timestamp" where
  "daysAgo n now = now - n * msPerDay"

definition generateAIMessage :: "string \<Rightarrow> rat \<Rightarrow> string" where
  "generateAIMessage riskLevel percentage =
     (let overagePercent = Math_round (percentage - 100)
      in if riskLevel = ''low'' then
           ''You're on track! Based on your past 30 days, you will comfortably stay within your monthly budget.''
         else if riskLevel = ''medium'' then
           ''You may reach your budget limit by the end of the month. Small reductions in daily expenses can help.''
         else
           ''Warning! At your current spending pace, you may exceed your monthly budget by ''
             @ show_int overagePercent @ ''%. Consider reducing non-essential expenses.'')"

record forecast =
  predictedExpenses :: int
  f_monthlyBudget :: rat
  f_spentSoFar :: rat
  remainingDays :: int
  dailyAverage :: int
  difference :: int
  riskLevel :: string
  f_message :: string

datatype forecast_response =
  ForecastDisabled
| ForecastNoBudget
| ForecastNoData
| ForecastResult forecast

text \<open>\<open>getForecast\<close> of the AI controller; \<open>enabled\<close> is the user's forecast preference.\<close>

definition getForecast :: "int \<Rightarrow> timestamp \<Rightarrow> bool \<Rightarrow> user_id \<Rightarrow> store \<Rightarrow> forecast_response" where
  "getForecast tz now enabled uid db =
     (if \<not> enabled then ForecastDisabled
      else case budgets db (uid, getCurrentMonth tz now) of
        None \<Rightarrow> ForecastNoBudget
      | Some b \<Rightarrow>
          (let last30DaysExpenses = expensesSince uid (daysAgo 30 now) (transactions db)
           in if length last30DaysExpenses = 0 then ForecastNoData
              else
                (let totalExpenses = sumAmounts last30DaysExpenses;
                     dailyAvg = Math_round (totalExpenses / 30);
                     remaining = getRemainingDays tz now;
                     predicted = spentSoFar b + of_int dailyAvg * of_int remaining;
                     diff = predicted - monthlyBudget b;
                     percentage = predicted / monthlyBudget b * 100;
                     risk = (if percentage > 100 then ''high''
                             else if percentage > 60 then ''medium''
                             else ''low'')
                 in ForecastResult
                      \<lparr>predictedExpenses = Math_round predicted,
                       f_monthlyBudget = monthlyBudget b,
                       f_spentSoFar = spentSoFar b,
                       remainingDays = remaining,
                       dailyAverage = dailyAvg,
                       difference = Math_round diff,
                       riskLevel = risk,
                       f_message = generateAIMessage risk percentage\<rparr>)))"

text \<open>\<open>getForecastRisk\<close> of the consolidated alerts controller. The daily average is
  not rounded here and the medium threshold is 75.\<close>

definition getForecastRisk :: "int \<Rightarrow> timestamp \<Rightarrow> user_id \<Rightarrow> budget option \<Rightarrow> store \<Rightarrow> string" where
  "getForecastRisk tz now uid budget db =
     (case budget of
        None \<Rightarrow> ''low''
      | Some b \<Rightarrow>
          (let expenses = expensesSince uid (daysAgo 30 now) (transactions db)
           in if length expenses = 0 then ''low''
              else
                (let total = sumAmounts expenses;
                     dailyAvg = total / 30;
                     remaining = getRemainingDays tz now;
                     predicted = spentSoFar b + dailyAvg * of_int remaining;
                     pct = predicted / monthlyBudget b * 100
                 in if pct > 100 then ''high''
                    else if pct > 75 then ''medium''
                    else ''low'')))"

text \<open>The forecast insight of \<open>getAIInsights\<close> (dashboard controller): severity and
  message, or nothing when the forecast preference is off, when there is no budget with a
  positive limit, or when there is no expense in the last 30 days.\<close>

definition forecastInsight ::
  "int \<Rightarrow> timestamp \<Rightarrow> bool \<Rightarrow> user_id \<Rightarrow> store \<Rightarrow> (string \<times> string) option" where
  "forecastInsight tz now enabled uid db =
     (if \<not> enabled then None
      else case budgets db (uid, monthOf tz (newDateLocal tz (getFullYear tz now) (getMonth tz now) 1 0 0 0 0)) of
        None \<Rightarrow> None
      | Some b \<Rightarrow>
          if \<not> monthlyBudget b > 0 then None
          else
            (let expenses = expensesSince uid (daysAgo 30 now) (transactions db)
             in if \<not> length expenses > 0 then None
                else
                  (let total = sumAmounts expenses;
                       dailyAvg = total / 30;
                       remaining = getRemainingDays tz now;
                       predicted = spentSoFar b + dailyAvg * of_int remaining;
                       percentage = predicted / monthlyBudget b * 100
                   in if percentage > 100 then
                        Some (''high'',
                              ''Based on your current trend, you may exceed your monthly budget by ''
                                @ show_int (Math_round (percentage - 100)) @ ''%.'')
                      else if percentage > 75 then
                        Some (''medium'',
                              ''You may reach your budget limit by the end of the month. Small reductions can help.'')
                      else
                        Some (''low'',
                              ''You're on track! You will comfortably stay within your monthly budget.''))))"

subsection \<open>Object literals used as dictionaries\<close>

text \<open>The members that every object literal inherits from \<open>Object.prototype\<close>.\<close>

definition objectPrototypeKeys :: "string list" where
  "objectPrototypeKeys =
     [''constructor'', ''hasOwnProperty'', ''isPrototypeOf'', ''propertyIsEnumerable'',
      ''toLocaleString'', ''toString'', ''valueOf'', ''__defineGetter__'',
      ''__defineSetter__'', ''__lookupGetter__'', ''__lookupSetter__'', ''__proto__'']"

text \<open>What \<open>obj[k]\<close> answers: the value of an own property, an inherited member (a
  function, or \<open>Object.prototype\<close> itself for \<open>__proto__\<close>; truthy, and \<open>NaN\<close> in arithmetic),
  or \<open>undefined\<close>.\<close>

datatype 'v lookup = Undefined | Inherited | Own 'v

definition objGet :: "(string \<times> 'v) list \<Rightarrow> string \<Rightarrow> 'v lookup" where
  "objGet obj k =
     (case map_of obj k of
        Some v \<Rightarrow> Own v
      | None \<Rightarrow> if k \<in> set objectPrototypeKeys then Inherited else Undefined)"

text \<open>Own keys are enumerated with the array indices first, in ascending order, and the
  other keys after them in the order of their insertion. An array index is the canonical
  decimal numeral of a number below \<open>2^32 - 1\<close>.\<close>

definition parseNat :: "string \<Rightarrow> nat" where
  "parseNat k = foldl (\<lambda>n c. 10 * n + (of_char c - 48)) 0 k"

definition arrayIndex :: "string \<Rightarrow> nat option" where
  "arrayIndex k =
     (if k \<noteq> [] \<and> list_all (\<lambda>c. c \<in> set ''0123456789'') k \<and>
         (k = ''0'' \<or> hd k \<noteq> CHR ''0'') \<and> parseNat k < 4294967295
      then Some (parseNat k) else None)"

fun insertIndexed :: "nat \<Rightarrow> string \<Rightarrow> 'v \<Rightarrow> (string \<times> 'v) list \<Rightarrow> (string \<times> 'v) list" where
  "insertIndexed n k v [] = [(k, v)]"
| "insertIndexed n k v ((k', v') # rest) =
     (case arrayIndex k' of
        Some n' \<Rightarrow>
          if n' < n then (k', v') # insertIndexed n k v rest else (k, v) # (k', v') # rest
      | None \<Rightarrow> (k, v) # (k', v') # rest)"

text \<open>\<open>obj[k] = v\<close> for a value that is a number or a string: the setter of \<open>__proto__\<close>
  ignores such a value, an own property is overwritten in place, and a new property is
  added at its place in the enumeration.\<close>

definition objSet :: "(string \<times> 'v) list \<Rightarrow> string \<Rightarrow> 'v \<Rightarrow> (string \<times> 'v) list" where
  "objSet obj k v =
     (if k = ''__proto__'' then obj
      else if k \<in> set (map fst obj) then
        map (\<lambda>kv. if fst kv = k then (k, v) else kv) obj
      else case arrayIndex k of
             Some n \<Rightarrow> insertIndexed n k v obj
           | None \<Rightarrow> obj @ [(k, v)])"

text \<open>\<open>xs.sort(cmp)\<close>: \<open>x\<close> stays before \<open>y\<close> unless \<open>cmp(x, y) > 0\<close>. A comparator that
  answers \<open>NaN\<close> is read as answering 0; where that makes the comparison inconsistent the
  order is left to the implementation, and the embedding takes the one of a stable
  insertion sort.\<close>

fun insertSorted :: "('a \<Rightarrow> 'a \<Rightarrow> rat) \<Rightarrow> 'a \<Rightarrow> 'a list \<Rightarrow> 'a list" where
  "insertSorted cmp x [] = [x]"
| "insertSorted cmp x (y # ys) =
     (if cmp y x > 0 then x # y # ys else y # insertSorted cmp x ys)"

definition sortBy :: "('a \<Rightarrow> 'a \<Rightarrow> rat) \<Rightarrow> 'a list \<Rightarrow> 'a list" where
  "sortBy cmp xs = foldl (\<lambda>sorted x. insertSorted cmp x sorted) [] xs"

text \<open>The comparator \<open>(a, b) => b - a\<close> on numbers that may be \<open>NaN\<close>.\<close>

definition descending :: "rat option \<Rightarrow> rat option \<Rightarrow> rat" where
  "descending a b = (case (a, b) of (Some x, Some y) \<Rightarrow> y - x | _ \<Rightarrow> 0)"

subsection \<open>Personality\<close>

text \<open>A category total is a number, or a string once an amount has been added to an
  inherited member (\<open>+\<close> concatenates then, and keeps concatenating).\<close>

datatype total = Num rat | Str

text \<open>A string of that kind is \<open>NaN\<close> as a number.\<close>

fun numberOf :: "total \<Rightarrow> rat option" where
  "numberOf (Num v) = Some v"
| "numberOf Str = None"

text \<open>\<open>categoryTotals[t.category] = (categoryTotals[t.category] || 0) + t.amount\<close>\<close>

definition addTotal :: "string \<Rightarrow> rat \<Rightarrow> (string \<times> total) list \<Rightarrow> (string \<times> total) list" where
  "addTotal c a totals =
     objSet totals c
       (case objGet totals c of
          Own (Num v) \<Rightarrow> Num ((if v = 0 then 0 else v) + a)
        | Own Str \<Rightarrow> Str
        | Inherited \<Rightarrow> Str
        | Undefined \<Rightarrow> Num (0 + a))"

definition categoryTotals :: "transaction list \<Rightarrow> (string \<times> total) list" where
  "categoryTotals ts = foldl (\<lambda>totals t. addTotal (t_category t) (t_amount t) totals) [] ts"

text \<open>The percentage of a category, \<open>NaN\<close> where its total is not a number, and the
  categories sorted by it: \<open>.sort((a, b) => b.percentage - a.percentage)\<close>.\<close>

definition percentageOf :: "rat \<Rightarrow> total \<Rightarrow> int option" where
  "percentageOf totalSpending v =
     (case numberOf v of
        Some x \<Rightarrow> Some (Math_round (x / totalSpending * 100))
      | None \<Rightarrow> None)"

definition categoryShares :: "transaction list \<Rightarrow> (string \<times> int option) list" where
  "categoryShares ts =
     (let totalSpending = sumAmounts ts
      in sortBy (\<lambda>a b. descending (map_option of_int (snd a)) (map_option of_int (snd b)))
           (map (\<lambda>cat. (fst cat, percentageOf totalSpending (snd cat))) (categoryTotals ts)))"

text \<open>\<open>p > n\<close>, which is false for \<open>NaN\<close>.\<close>

definition exceeds :: "int option \<Rightarrow> int \<Rightarrow> bool" where
  "exceeds p n = (case p of Some x \<Rightarrow> x > n | None \<Rightarrow> False)"

definition showPercentage :: "int option \<Rightarrow> string" where
  "showPercentage p = (case p of Some x \<Rightarrow> show_int x | None \<Rightarrow> ''NaN'')"

definition budgetUsagePercent :: "budget option \<Rightarrow> rat" where
  "budgetUsagePercent currentBudget =
     (case currentBudget of
        Some b \<Rightarrow> spentSoFar b / monthlyBudget b * 100
      | None \<Rightarrow> 100)"

record personality =
  p_type :: string
  p_description :: string
  p_reason :: string
  p_advice :: string
  p_topCategories :: "(string \<times> int option) list"

datatype personality_response =
  PersonalityDisabled
| PersonalityNoData
| PersonalityResult personality

text \<open>\<open>getPersonality\<close>. The fourth rule reads \<open>topCategory.percentage\<close> without a
  guard, which throws when there is no category (every expense of the window is on
  \<open>__proto__\<close>). Typographic quotes and dashes of the
  texts are written in ASCII.\<close>

definition getPersonality ::
  "int \<Rightarrow> timestamp \<Rightarrow> bool \<Rightarrow> user_id \<Rightarrow> store \<Rightarrow> error + personality_response" where
  "getPersonality tz now enabled uid db =
     (if \<not> enabled then Inr PersonalityDisabled
      else
        (let txns = expensesSince uid (daysAgo 90 now) (transactions db)
         in if length txns < 5 then Inr PersonalityNoData
            else
              (let uniqueCategories = remdups (map t_category txns);
                   highValueCount = length (filter (\<lambda>t. t_amount t > 2000) txns);
                   txnsPerWeek = (of_nat (length txns) :: rat) / 12;
                   categories = categoryShares txns;
                   usage = budgetUsagePercent (budgets db (uid, getCurrentMonth tz now));
                   top3 = take 3 categories
               in if length uniqueCategories > 5 \<and> txnsPerWeek > 10 then
                    Inr (PersonalityResult
                      \<lparr>p_type = ''Impulsive Spender'',
                       p_description = ''You make quick purchase decisions and don't always think ahead.'',
                       p_reason = ''High daily spending frequency and purchases across many different categories.'',
                       p_advice = ''Consider a 24-hour spending rule before buying non-essential items.'',
                       p_topCategories = top3\<rparr>)
                  else if find (\<lambda>c. fst c = ''Food'' \<and> exceeds (snd c) 30) categories \<noteq> None then
                    Inr (PersonalityResult
                      \<lparr>p_type = ''Foodie Spender'',
                       p_description = ''You love food experiences and spend a significant part of your budget on meals.'',
                       p_reason = ''Food is consistently your top spending category (over 30%).'',
                       p_advice = ''Try meal planning or cooking at home twice a week to save money.'',
                       p_topCategories = top3\<rparr>)
                  else if txnsPerWeek < 5 \<and> highValueCount > 2 then
                    Inr (PersonalityResult
                      \<lparr>p_type = ''Occasional Big Spender'',
                       p_description = ''You don't spend often, but when you do - it's big.'',
                       p_reason = ''Few transactions overall, but multiple large-value purchases (>2000).'',
                       p_advice = ''Plan for big purchases in advance to avoid budget pressure.'',
                       p_topCategories = top3\<rparr>)
                  else
                    (case categories of
                       [] \<Rightarrow> Inl (TypeError ''Cannot read properties of undefined'')
                     | topCategory # _ \<Rightarrow>
                         if exceeds (snd topCategory) 60 then
                           Inr (PersonalityResult
                             \<lparr>p_type = ''Category Loyalist'',
                              p_description = ''You tend to stick to one main spending area each month.'',
                              p_reason = fst topCategory @ '' dominates your spending, taking up ''
                                           @ showPercentage (snd topCategory) @ ''% of your expenses.'',
                              p_advice = ''Review if this category aligns with your long-term goals.'',
                              p_topCategories = top3\<rparr>)
                         else if usage < 50 \<and> txnsPerWeek < 5 then
                           Inr (PersonalityResult
                             \<lparr>p_type = ''Saver'',
                              p_description = ''You are disciplined and manage your money carefully.'',
                              p_reason = ''Monthly expenses differ significantly from income/budget, with few transaction spikes.'',
                              p_advice = ''Continue saving - consider investing or long-term planning.'',
                              p_topCategories = top3\<rparr>)
                         else
                           Inr (PersonalityResult
                             \<lparr>p_type = ''Balanced Spender'',
                              p_description = ''You maintain a healthy balance between needs and wants.'',
                              p_reason = ''Spending is evenly split across categories with no extreme spikes.'',
                              p_advice = ''Stay consistent - consider increasing savings goals.'',
                              p_topCategories = top3\<rparr>)))))"

text \<open>\<open>determinePersonality\<close>, the helper of the suggestions; \<open>None\<close> is \<open>null\<close>.\<close>

definition determinePersonality :: "int \<Rightarrow> timestamp \<Rightarrow> user_id \<Rightarrow> store \<Rightarrow> string option" where
  "determinePersonality tz now uid db =
     (let txns = expensesSince uid (daysAgo 90 now) (transactions db)
      in if length txns < 5 then None
         else
           (let uniqueCategories = remdups (map t_category txns);
                highValueCount = length (filter (\<lambda>t. t_amount t > 2000) txns);
                txnsPerWeek = (of_nat (length txns) :: rat) / 12;
                categories = categoryShares txns;
                usage = budgetUsagePercent (budgets db (uid, monthOf tz now))
            in if length uniqueCategories > 5 \<and> txnsPerWeek > 10 then Some ''Impulsive Spender''
               else if find (\<lambda>c. fst c = ''Food'' \<and> exceeds (snd c) 30) categories \<noteq> None then
                 Some ''Foodie Spender''
               else if txnsPerWeek < 5 \<and> highValueCount > 2 then Some ''Occasional Big Spender''
               else if (case categories of [] \<Rightarrow> False | topCategory # _ \<Rightarrow> exceeds (snd topCategory) 60) then
                 Some ''Category Loyalist''
               else if usage < 50 \<and> txnsPerWeek < 5 then Some ''Saver''
               else Some ''Balanced Spender''))"

subsection \<open>Alert service\<close>

text \<open>\<open>generateBudgetAlerts\<close>: leaves the store as it is when there is no budget for the
  current month, or its limit is 0; otherwise runs
  \<open>Alert.deleteMany({user, type: "budget", "metadata.month": month})\<close> and creates at most
  one new alert. The \<open>month\<close> that the code puts into the metadata of the new alert is not
  a path of the schema and is not stored.\<close>

definition generateBudgetAlerts :: "int \<Rightarrow> timestamp \<Rightarrow> user_ref \<Rightarrow> store \<Rightarrow> store" where
  "generateBudgetAlerts tz now userId db =
     (let month = getCurrentMonth tz now
      in case budgets db (castId userId, month) of
           None \<Rightarrow> db
         | Some b \<Rightarrow>
             if monthlyBudget b = 0 then db
             else
               (let usage = spentSoFar b / monthlyBudget b * 100;
                    kept = filter (\<lambda>a. \<not> (a_user a = castId userId \<and> a_type a = ''budget'' \<and>
                                            metadata_month a = Some month)) (alerts db);
                    db1 = db\<lparr>alerts := kept\<rparr>;
                    mk = (\<lambda>severity message.
                            db1\<lparr>alerts := kept @
                              [\<lparr>a_user = castId userId, a_type = ''budget'', a_severity = severity,
                                a_message = message,
                                a_budgetUsage = Some (Math_round usage),
                                a_category = None, a_trendPercentage = None,
                                a_isRead = False\<rparr>]\<rparr>)
                in if usage \<ge> 100 then
                     mk ''high'' (''You have exceeded your monthly budget by ''
                                   @ show_int (Math_round (usage - 100)) @ ''%.'')
                   else if usage \<ge> 90 then
                     mk ''high'' (''You have used '' @ show_int (Math_round usage)
                                   @ ''% of your monthly budget.'')
                   else if usage \<ge> 75 then
                     mk ''medium'' (''You have used '' @ show_int (Math_round usage)
                                     @ ''% of your monthly budget.'')
                   else if usage \<ge> 50 then
                     mk ''low'' (''You have used '' @ show_int (Math_round usage)
                                  @ ''% of your monthly budget.'')
                   else db1))"

text \<open>The stage \<open>{$group: {_id: "$category", amount: {$sum: "$amount"}}}\<close>: one group per
  category, here in the order of the first document of each.\<close>

fun addGroup :: "string \<Rightarrow> rat \<Rightarrow> (string \<times> rat) list \<Rightarrow> (string \<times> rat) list" where
  "addGroup c a [] = [(c, a)]"
| "addGroup c a ((k, v) # kvs) =
     (if k = c then (k, v + a) # kvs else (k, v) # addGroup c a kvs)"

definition groupByCategory :: "transaction list \<Rightarrow> (string \<times> rat) list" where
  "groupByCategory ts = foldl (\<lambda>groups t. addGroup (t_category t) (t_amount t) groups) [] ts"

text \<open>The two weekly aggregations. Their \<open>$match\<close> stage compares the stored user with
  \<open>userId\<close> as it was passed.\<close>

definition thisWeekExpenses :: "timestamp \<Rightarrow> user_ref \<Rightarrow> transaction list \<Rightarrow> (string \<times> rat) list" where
  "thisWeekExpenses now userId ts =
     groupByCategory
       (filter (\<lambda>t. matchesUser userId (t_user t) \<and> t_type t = ''expense'' \<and>
                    now - 7 * 24 * 60 * 60 * 1000 \<le> t_date t \<and> t_date t \<le> now) ts)"

definition lastWeekExpenses :: "timestamp \<Rightarrow> user_ref \<Rightarrow> transaction list \<Rightarrow> (string \<times> rat) list" where
  "lastWeekExpenses now userId ts =
     groupByCategory
       (filter (\<lambda>t. matchesUser userId (t_user t) \<and> t_type t = ''expense'' \<and>
                    now - 14 * 24 * 60 * 60 * 1000 \<le> t_date t \<and>
                    t_date t < now - 7 * 24 * 60 * 60 * 1000) ts)"

text \<open>\<open>lastWeekMap = {}\<close> and \<open>lastWeekMap[cat._id] = cat.amount\<close> for each group.\<close>

definition toMap :: "(string \<times> rat) list \<Rightarrow> (string \<times> rat) list" where
  "toMap groups = foldl (\<lambda>lastWeekMap cat. objSet lastWeekMap (fst cat) (snd cat)) [] groups"

text \<open>The loop over this week's groups; the accumulator is the alert collection.
  \<open>lastWeekMap[category] || 0\<close> is 0 for an absent key and for the amount 0, and the
  category is skipped; for an inherited member it is that member, which is not 0 and
  makes the increase \<open>NaN\<close>, so that no threshold is reached.\<close>

fun trendLoop :: "user_id \<Rightarrow> (string \<times> rat) list \<Rightarrow> (string \<times> rat) list \<Rightarrow> alert list \<Rightarrow> alert list" where
  "trendLoop uid lastWeekMap [] as = as"
| "trendLoop uid lastWeekMap ((category, thisWeekAmount) # rest) as =
     (case objGet lastWeekMap category of
        Undefined \<Rightarrow> trendLoop uid lastWeekMap rest as
      | Inherited \<Rightarrow> trendLoop uid lastWeekMap rest as
      | Own lastWeekAmount \<Rightarrow>
          if lastWeekAmount = 0 then trendLoop uid lastWeekMap rest as
          else
            (let increasePercent = (thisWeekAmount - lastWeekAmount) / lastWeekAmount * 100
             in if increasePercent \<ge> 20 then
                  trendLoop uid lastWeekMap rest
                    (as @ [\<lparr>a_user = uid, a_type = ''trend'',
                            a_severity = (if increasePercent \<ge> 50 then ''high'' else ''medium''),
                            a_message = ''Your '' @ category @ '' spending increased by ''
                                          @ show_int (Math_round increasePercent) @ ''% this week.'',
                            a_budgetUsage = None,
                            a_category = Some category,
                            a_trendPercentage = Some (Math_round increasePercent),
                            a_isRead = False\<rparr>])
                else trendLoop uid lastWeekMap rest as))"

definition generateTrendAlerts :: "timestamp \<Rightarrow> user_ref \<Rightarrow> store \<Rightarrow> store" where
  "generateTrendAlerts now userId db =
     (let thisWeek = thisWeekExpenses now userId (transactions db);
          lastWeek = lastWeekExpenses now userId (transactions db);
          kept = filter (\<lambda>a. \<not> (a_user a = castId userId \<and> a_type a = ''trend'')) (alerts db);
          lastWeekMap = toMap lastWeek
      in db\<lparr>alerts := trendLoop (castId userId) lastWeekMap thisWeek kept\<rparr>)"

text \<open>\<open>triggerAlertGeneration\<close>, the handler of \<open>POST /api/alerts/generate\<close> and the only
  caller of the service, passes \<open>req.user.id\<close> through \<open>generateAllAlerts\<close> to each
  generator.\<close>

definition triggeredBudgetAlerts :: "int \<Rightarrow> timestamp \<Rightarrow> user_id \<Rightarrow> store \<Rightarrow> store" where
  "triggeredBudgetAlerts tz now uid db = generateBudgetAlerts tz now (IdString uid) db"

definition triggeredTrendAlerts :: "timestamp \<Rightarrow> user_id \<Rightarrow> store \<Rightarrow> store" where
  "triggeredTrendAlerts now uid db = generateTrendAlerts now (IdString uid) db"

text \<open>The total a user spent on a category in each of the two windows.\<close>

definition thisWeekTotal :: "timestamp \<Rightarrow> user_id \<Rightarrow> string \<Rightarrow> transaction list \<Rightarrow> rat" where
  "thisWeekTotal now uid c ts =
     sum_list (map t_amount
       (filter (\<lambda>t. t_user t = uid \<and> t_type t = ''expense'' \<and> t_category t = c \<and>
                    now - 7 * 24 * 60 * 60 * 1000 \<le> t_date t \<and> t_date t \<le> now) ts))"

definition lastWeekTotal :: "timestamp \<Rightarrow> user_id \<Rightarrow> string \<Rightarrow> transaction list \<Rightarrow> rat" where
  "lastWeekTotal now uid c ts =
     sum_list (map t_amount
       (filter (\<lambda>t. t_user t = uid \<and> t_type t = ''expense'' \<and> t_category t = c \<and>
                    now - 14 * 24 * 60 * 60 * 1000 \<le> t_date t \<and>
                    t_date t < now - 7 * 24 * 60 * 60 * 1000) ts))"

definition presentThisWeek :: "timestamp \<Rightarrow> user_id \<Rightarrow> string \<Rightarrow> transaction list \<Rightarrow> bool" where
  "presentThisWeek now uid c ts \<longleftrightarrow>
     (\<exists>t \<in> set ts. t_user t = uid \<and> t_type t = ''expense'' \<and> t_category t = c \<and>
                   now - 7 * 24 * 60 * 60 * 1000 \<le> t_date t \<and> t_date t \<le> now)"

subsection \<open>Challenges\<close>

record template =
  tp_title :: string
  tp_desc :: string
  tp_icon :: string
  tp_duration :: string

text \<open>The expected save is a number, \<open>None\<close> being \<open>NaN\<close>.\<close>

record challenge =
  ch_id :: nat
  ch_title :: string
  ch_description :: string
  ch_expectedSave :: "int option"
  ch_duration :: string
  ch_difficulty :: string
  ch_icon :: string
  ch_status :: string

text \<open>The challenge repository, an object literal with five own keys. The icons are
  emoji in the source; they are named here.\<close>

definition challengePool :: "(string \<times> template list) list" where
  "challengePool =
     [(''Food'',
        [\<lparr>tp_title = ''No Food Delivery Challenge'',
          tp_desc = ''Avoid ordering food delivery for 3 consecutive days'',
          tp_icon = ''pizza'', tp_duration = ''3 days''\<rparr>,
         \<lparr>tp_title = ''Coffee at Home'',
          tp_desc = ''Make your own coffee instead of buying it for a week'',
          tp_icon = ''coffee'', tp_duration = ''7 days''\<rparr>,
         \<lparr>tp_title = ''Meal Prep Sunday'',
          tp_desc = ''Prep all your lunches for the week on Sunday'',
          tp_icon = ''bento'', tp_duration = ''7 days''\<rparr>]),
      (''Shopping'',
        [\<lparr>tp_title = ''No New Clothes'',
          tp_desc = ''Do not buy any new clothes for 2 weeks'',
          tp_icon = ''dress'', tp_duration = ''14 days''\<rparr>,
         \<lparr>tp_title = ''24-Hour Rule'',
          tp_desc = ''Wait 24 hours before making any non-essential purchase'',
          tp_icon = ''hourglass'', tp_duration = ''7 days''\<rparr>]),
      (''Transport'',
        [\<lparr>tp_title = ''Walk More'',
          tp_desc = ''Walk for short trips instead of taking a cab'',
          tp_icon = ''walking'', tp_duration = ''7 days''\<rparr>,
         \<lparr>tp_title = ''Public Transport Week'',
          tp_desc = ''Use public transport instead of ride-hailing apps'',
          tp_icon = ''bus'', tp_duration = ''7 days''\<rparr>]),
      (''Entertainment'',
        [\<lparr>tp_title = ''Free Fun Weekend'',
          tp_desc = ''Find free entertainment activities this weekend'',
          tp_icon = ''party'', tp_duration = ''2 days''\<rparr>,
         \<lparr>tp_title = ''Entertainment Cap'',
          tp_desc = ''Keep entertainment spending under limit'',
          tp_icon = ''gamepad'', tp_duration = ''7 days''\<rparr>]),
      (''General'',
        [\<lparr>tp_title = ''Zero Spend Day'',
          tp_desc = ''Go a full day without spending a single rupee'',
          tp_icon = ''prohibited'', tp_duration = ''1 day''\<rparr>,
         \<lparr>tp_title = ''Savings Sprint'',
          tp_desc = ''Save 500 daily for 5 days'',
          tp_icon = ''moneybag'', tp_duration = ''5 days''\<rparr>])]"

text \<open>\<open>pool[Math.floor(Math.random() * pool.length)]\<close>: the random source is a
  sequence of natural numbers, and the draw picks the index \<open>r mod length pool\<close>, which
  is any index of the pool.\<close>

definition pick :: "template list \<Rightarrow> nat \<Rightarrow> template" where
  "pick pool r = pool ! (r mod length pool)"

text \<open>\<open>Math.round((monthlySpend * 0.15) / 4)\<close>, raised to 500 when below 100; \<open>NaN\<close> when
  the monthly spend is not a number.\<close>

definition expectedSaveOf :: "total lookup \<Rightarrow> int option" where
  "expectedSaveOf monthlySpend =
     (case monthlySpend of
        Own (Num v) \<Rightarrow>
          (let expectedSave = Math_round (v * (15 / 100) / 4)
           in Some (if expectedSave < 100 then 500 else expectedSave))
      | _ \<Rightarrow> None)"

text \<open>The loop over the top categories; \<open>cs\<close> are the challenges pushed so far, and the
  next id and the next draw follow from their number. \<open>challengePool[cat]\<close> is truthy for
  an own key and for an inherited member alike; an inherited member has no element at
  the drawn index, the drawn challenge is \<open>undefined\<close>, and reading its title throws.\<close>

fun categoryChallenges ::
  "(nat \<Rightarrow> nat) \<Rightarrow> (string \<times> total) list \<Rightarrow> string list \<Rightarrow> challenge list \<Rightarrow> error + challenge list" where
  "categoryChallenges rnd totals [] cs = Inr cs"
| "categoryChallenges rnd totals (cat # cats) cs =
     (case objGet challengePool cat of
        Undefined \<Rightarrow> categoryChallenges rnd totals cats cs
      | Inherited \<Rightarrow> Inl (TypeError ''Cannot read properties of undefined (reading 'title')'')
      | Own catChallenges \<Rightarrow>
          (let ch = pick catChallenges (rnd (length cs));
               monthlySpend = objGet totals cat;
               expectedSave = expectedSaveOf monthlySpend
           in categoryChallenges rnd totals cats
                (cs @ [\<lparr>ch_id = length cs + 1, ch_title = tp_title ch,
                        ch_description = tp_desc ch, ch_expectedSave = expectedSave,
                        ch_duration = tp_duration ch, ch_difficulty = ''Medium'',
                        ch_icon = tp_icon ch, ch_status = ''available''\<rparr>])))"

definition generalChallenge :: "(nat \<Rightarrow> nat) \<Rightarrow> challenge list \<Rightarrow> challenge" where
  "generalChallenge rnd cs =
     (let generalPool = the (map_of challengePool ''General'');
          genChallenge = pick generalPool (rnd (length cs))
      in \<lparr>ch_id = length cs + 1, ch_title = tp_title genChallenge,
          ch_description = tp_desc genChallenge, ch_expectedSave = Some 500,
          ch_duration = tp_duration genChallenge, ch_difficulty = ''Easy'',
          ch_icon = tp_icon genChallenge, ch_status = ''available''\<rparr>)"

text \<open>The top categories: the first three entries of the totals, sorted with
  \<open>(a, b) => b[1] - a[1]\<close>.\<close>

definition topCategories :: "(string \<times> total) list \<Rightarrow> string list" where
  "topCategories totals =
     map fst (take 3 (sortBy (\<lambda>a b. descending (numberOf (snd a)) (numberOf (snd b))) totals))"

definition getChallenges ::
  "timestamp \<Rightarrow> (nat \<Rightarrow> nat) \<Rightarrow> user_id \<Rightarrow> store \<Rightarrow> error + challenge list" where
  "getChallenges now rnd uid db =
     (let txns = expensesSince uid (daysAgo 30 now) (transactions db);
          totals = categoryTotals txns
      in case categoryChallenges rnd totals (topCategories totals) [] of
           Inl e \<Rightarrow> Inl e
         | Inr cs \<Rightarrow>
             Inr (take 3 (if length cs < 2 then cs @ [generalChallenge rnd cs] else cs)))"

subsection \<open>Vocabulary of the properties, and example data\<close>

text \<open>No budget of the store has a negative \<open>spentSoFar\<close>.\<close>

definition spentNonNegative :: "store \<Rightarrow> bool" where
  "spentNonNegative db \<longleftrightarrow> (\<forall>k b. budgets db k = Some b \<longrightarrow> 0 \<le> spentSoFar b)"

text \<open>The ledger as the schema leaves it: document ids are unique and amounts positive.\<close>

definition ledgerWellFormed :: "store \<Rightarrow> bool" where
  "ledgerWellFormed db \<longleftrightarrow>
     distinct (map t_id (transactions db)) \<and> (\<forall>t \<in> set (transactions db). 0 < t_amount t)"

text \<open>An expense of user 7 dated 2024-05-15T12:00:00Z, a store that holds it together
  with the user's budget for May 2024, and a request body that carries an amount only.\<close>

definition exampleExpense :: "rat \<Rightarrow> transaction" where
  "exampleExpense a =
     \<lparr>t_id = 1, t_user = 7, t_type = ''expense'', t_category = ''Food'', t_amount = a,
      t_date = 1715774400000, t_note = None, t_mood = None\<rparr>"

definition exampleStore :: "rat \<Rightarrow> rat \<Rightarrow> rat \<Rightarrow> store" where
  "exampleStore a mb spent =
     \<lparr>transactions = [exampleExpense a],
      budgets = Map.empty((7, (2024, 5)) \<mapsto> \<lparr>monthlyBudget = mb, spentSoFar = spent\<rparr>),
      alerts = []\<rparr>"

definition amountOnly :: "rat \<Rightarrow> txn_body" where
  "amountOnly a = \<lparr>b_amount = Some a, b_type = None, b_category = None, b_date = None,
                   b_note = None, b_mood = None\<rparr>"

text \<open>A whole number of magnitude at most \<open>2^53\<close>. On such numbers the additions and
  subtractions of the code, which are those of double precision, are exact whenever the
  result is such a number too, and agree with those of the embedding.\<close>

definition safeInteger :: "rat \<Rightarrow> bool" where
  "safeInteger x \<longleftrightarrow> of_int \<lfloor>x\<rfloor> = x \<and> \<bar>x\<bar> \<le> 9007199254740992"

text \<open>The forecast example: on 2024-05-21T12:00:00Z ten days of May remain; the budget
  is 10000 with 6000 spent, and the single expense of 3000 gives a daily average of 100.\<close>

definition forecastNow :: timestamp where
  "forecastNow = 1716292800000"

definition forecastStore :: store where
  "forecastStore = exampleStore 3000 10000 6000"

definition exampleForecast :: forecast where
  "exampleForecast =
     \<lparr>predictedExpenses = 7000, f_monthlyBudget = 10000, f_spentSoFar = 6000,
      remainingDays = 10, dailyAverage = 100, difference = - 3000, riskLevel = ''medium'',
      f_message = ''You may reach your budget limit by the end of the month. Small reductions in daily expenses can help.''\<rparr>"

text \<open>The personality example: 121 expenses of user 7 in the 90 days before
  \<open>forecastNow\<close>, 116 of them on Food and one on each of five other categories.\<close>

definition expenseOn :: "doc_id \<Rightarrow> string \<Rightarrow> rat \<Rightarrow> transaction" where
  "expenseOn i c a =
     \<lparr>t_id = i, t_user = 7, t_type = ''expense'', t_category = c, t_amount = a,
      t_date = 1715774400000, t_note = None, t_mood = None\<rparr>"

definition impulsiveStore :: store where
  "impulsiveStore =
     \<lparr>transactions =
        map (\<lambda>i. expenseOn i ''Food'' 100) [0..<116] @
        [expenseOn 116 ''Shopping'' 10, expenseOn 117 ''Transport'' 10,
         expenseOn 118 ''Entertainment'' 10, expenseOn 119 ''Bills'' 10,
         expenseOn 120 ''Health'' 10],
      budgets = Map.empty,
      alerts = []\<rparr>"

text \<open>The alerts of type budget that the store holds for a user, and the alert that the
  budget generator creates for the store of the forecast example (usage 60%).\<close>

definition budgetAlertsOf :: "user_id \<Rightarrow> store \<Rightarrow> alert list" where
  "budgetAlertsOf uid db = filter (\<lambda>a. a_user a = uid \<and> a_type a = ''budget'') (alerts db)"

definition exampleBudgetAlert :: alert where
  "exampleBudgetAlert =
     \<lparr>a_user = 7, a_type = ''budget'', a_severity = ''low'',
      a_message = ''You have used 60% of your monthly budget.'',
      a_budgetUsage = Some 60, a_category = None, a_trendPercentage = None, a_isRead = False\<rparr>"

text \<open>The challenge example: the request that adds an expense of user 7 on the category
  \<open>constructor\<close> to the empty store, and the store after it.\<close>

definition emptyStore :: store where
  "emptyStore = \<lparr>transactions = [], budgets = Map.empty, alerts = []\<rparr>"

definition constructorBody :: txn_body where
  "constructorBody =
     \<lparr>b_amount = Some 100, b_type = Some ''expense'', b_category = Some ''constructor'',
      b_date = Some 1715774400000, b_note = None, b_mood = None\<rparr>"

definition constructorExpense :: transaction where
  "constructorExpense =
     \<lparr>t_id = 1, t_user = 7, t_type = ''expense'', t_category = ''constructor'', t_amount = 100,
      t_date = 1715774400000, t_note = None, t_mood = None\<rparr>"

definition constructorStore :: store where
  "constructorStore = emptyStore\<lparr>transactions := [constructorExpense]\<rparr>"

text \<open>The sum of the amounts that a list of transactions has on a category.\<close>

definition categorySum :: "string \<Rightarrow> transaction list \<Rightarrow> rat" where
  "categorySum c ts = sum_list (map t_amount (filter (\<lambda>t. t_category t = c) ts))"

text \<open>The trend example: relative to \<open>forecastNow\<close>, user 7 spent 1000 on Food eight days
  ago and 700 and 800 on Food one and two days ago, and 10 on Fun three days ago.\<close>

definition expenseAt :: "doc_id \<Rightarrow> string \<Rightarrow> rat \<Rightarrow> int \<Rightarrow> transaction" where
  "expenseAt i c a daysBefore =
     \<lparr>t_id = i, t_user = 7, t_type = ''expense'', t_category = c, t_amount = a,
      t_date = forecastNow - daysBefore * msPerDay, t_note = None, t_mood = None\<rparr>"

definition trendStore :: store where
  "trendStore =
     \<lparr>transactions =
        [expenseAt 1 ''Food'' 1000 8, expenseAt 2 ''Food'' 700 1, expenseAt 3 ''Food'' 800 2,
         expenseAt 4 ''Fun'' 10 3],
      budgets = Map.empty,
      alerts = []\<rparr>"

text \<open>The same spending on a category named \<open>__proto__\<close>.\<close>

definition protoTrendStore :: store where
  "protoTrendStore =
     \<lparr>transactions = [expenseAt 1 ''__proto__'' 1000 8, expenseAt 2 ''__proto__'' 1500 1],
      budgets = Map.empty,
      alerts = []\<rparr>"

definition exampleTrendAlert :: alert where
  "exampleTrendAlert =
     \<lparr>a_user = 7, a_type = ''trend'', a_severity = ''high'',
      a_message = ''Your Food spending increased by 50% this week.'',
      a_budgetUsage = None, a_category = Some ''Food'', a_trendPercentage = Some 50,
      a_isRead = False\<rparr>"

text \<open>What a transaction contributes to the live expense sum of a user and month, and
  the aggregate of that user and month being in step with the ledger.\<close>

definition counts :: "int \<Rightarrow> user_id \<Rightarrow> month_key \<Rightarrow> transaction \<Rightarrow> rat" where
  "counts tz uid m t =
     (if t_user t = uid \<and> t_type t = ''expense'' \<and> monthOf tz (t_date t) = m
      then t_amount t else 0)"

definition aggregateConsistent :: "int \<Rightarrow> user_id \<Rightarrow> month_key \<Rightarrow> store \<Rightarrow> bool" where
  "aggregateConsistent tz uid m db \<longleftrightarrow>
     (\<exists>b. budgets db (uid, m) = Some b \<and>
          spentSoFar b = clampZero (liveExpenseSum tz uid m (transactions db)))"

section \<open>Properties\<close>

subsection \<open>Evaluating dates\<close>

lemmas calendar_defs =
  monthOf_def getCurrentMonth_def getFullYear_def getMonth_def getDate_def localDay_def
  msPerDay_def YearFromDay_def DayFromYear_def MonthFromDay_def DateFromDay_def
  InLeapYear_def monthStart_def MakeDay_def newDateLocal_def newDateMonthFirst_def
  getRemainingDays_def daysAgo_def monthStartDate_def monthEndDate_def

lemma monthOf_example: "monthOf 0 1715774400000 = (2024, 5)"
  by (simp add: calendar_defs Let_def)

subsection \<open>Steps of the transaction controller\<close>

lemma Budget_save_Inr:
  "Budget_save k b db = Inr db' \<Longrightarrow>
     db' = db\<lparr>budgets := (budgets db)(k \<mapsto> b)\<rparr> \<and> budget_valid b"
  by (auto simp: Budget_save_def split: if_splits)

lemma add_None:
  "b_amount body = None \<or> b_type body = None \<or> b_category body = None \<or> b_date body = None \<Longrightarrow>
   addTransaction tz uid body db =
     (Inl (ApiError 400 ''Amount, type, category, and date are required''), db)"
  by (auto simp add: addTransaction_def split: option.splits)

lemma add_Some:
  "b_amount body = Some a \<Longrightarrow> b_type body = Some ty \<Longrightarrow> b_category body = Some c \<Longrightarrow>
   b_date body = Some d \<Longrightarrow>
   addTransaction tz uid body db =
     (if a = 0 \<or> ty = [] \<or> c = [] then
        (Inl (ApiError 400 ''Amount, type, category, and date are required''), db)
      else if a \<le> 0 then
        (Inl (ApiError 400 ''Amount must be greater than 0''), db)
      else if \<not> transaction_valid (newTransaction uid body db a ty c d) then
        (Inl (ValidationError ''Transaction validation failed''), db)
      else
        (case applyBudgetImpact tz uid ty d a
                (db\<lparr>transactions := transactions db @ [newTransaction uid body db a ty c d]\<rparr>) of
           Inl e \<Rightarrow>
             (Inl e, db\<lparr>transactions := transactions db @ [newTransaction uid body db a ty c d]\<rparr>)
         | Inr db2 \<Rightarrow> (Inr (newTransaction uid body db a ty c d), db2)))"
  by (simp add: addTransaction_def Let_def)

subsection \<open>Non-negative aggregates\<close>

lemma spentNonNegative_transactions [simp]:
  "spentNonNegative (db\<lparr>transactions := ts\<rparr>) = spentNonNegative db"
  by (simp add: spentNonNegative_def)

lemma spentNonNegative_update:
  "spentNonNegative db \<Longrightarrow> 0 \<le> spentSoFar b \<Longrightarrow>
     spentNonNegative (db\<lparr>budgets := (budgets db)(k \<mapsto> b)\<rparr>)"
  unfolding spentNonNegative_def by simp

lemma revert_nonneg:
  assumes "spentNonNegative db" "revertBudgetImpact tz uid t db = Inr db'"
  shows "spentNonNegative db'"
  using assms
  by (auto simp: revertBudgetImpact_def Let_def dest!: Budget_save_Inr
      intro!: spentNonNegative_update split: if_splits option.splits)

lemma apply_nonneg:
  assumes "spentNonNegative db" "0 \<le> a" "applyBudgetImpact tz uid ty d a db = Inr db'"
  shows "spentNonNegative db'"
proof (cases "ty = ''expense''")
  case False
  with assms show ?thesis by (simp add: applyBudgetImpact_def)
next
  case True
  show ?thesis
  proof (cases "budgets db (uid, monthOf tz d)")
    case None
    with True assms show ?thesis by (simp add: applyBudgetImpact_def)
  next
    case (Some b)
    with True assms have
      "db' = db\<lparr>budgets := (budgets db)((uid, monthOf tz d) \<mapsto> b\<lparr>spentSoFar := spentSoFar b + a\<rparr>)\<rparr>"
      by (auto simp: applyBudgetImpact_def dest: Budget_save_Inr)
    moreover have "0 \<le> spentSoFar b"
      using assms(1) Some unfolding spentNonNegative_def by blast
    ultimately show ?thesis
      using assms(1,2) by (simp add: spentNonNegative_update)
  qed
qed

lemma add_nonneg:
  assumes "spentNonNegative db"
  shows "spentNonNegative (snd (addTransaction tz uid body db))"
proof (cases "b_amount body = None \<or> b_type body = None \<or> b_category body = None \<or> b_date body = None")
  case True
  then show ?thesis using assms by (simp add: add_None)
next
  case False
  then obtain a ty c d where
    "b_amount body = Some a" "b_type body = Some ty" "b_category body = Some c" "b_date body = Some d"
    by auto
  then show ?thesis using assms
    by (auto simp: add_Some split: sum.splits intro: apply_nonneg[rotated 2])
qed

lemma delete_nonneg:
  assumes "spentNonNegative db"
  shows "spentNonNegative (snd (deleteTransaction tz uid i db))"
  using assms
  by (auto simp: deleteTransaction_def split: option.splits sum.splits dest: revert_nonneg)

lemma update_nonneg:
  assumes "spentNonNegative db"
  shows "spentNonNegative (snd (updateTransaction tz uid i body db))"
proof (cases "findById i (transactions db)")
  case None
  then show ?thesis using assms by (simp add: updateTransaction_def)
next
  case (Some t)
  show ?thesis
  proof (cases "revertBudgetImpact tz uid t db")
    case (Inl e)
    then show ?thesis using assms Some by (simp add: updateTransaction_def)
  next
    case (Inr db1)
    then have n1: "spentNonNegative db1" using assms revert_nonneg by blast
    show ?thesis
    proof (cases "transaction_valid (updateFields body t)")
      case False
      then show ?thesis using Some Inr n1 assms by (simp add: updateTransaction_def)
    next
      case True
      then have "0 \<le> t_amount (updateFields body t)" by (simp add: transaction_valid_def)
      then show ?thesis using Some Inr n1 assms True
        by (auto simp: updateTransaction_def Let_def split: sum.splits
            intro: apply_nonneg[rotated 2])
    qed
  qed
qed

lemma delete_clamps:
  assumes "deleteTransaction tz uid i db = (Inr (), db')"
    and "findById i (transactions db) = Some t"
    and "t_type t = ''expense''"
    and "budgets db (uid, monthOf tz (t_date t)) = Some b"
  shows "\<exists>b'. budgets db' (uid, monthOf tz (t_date t)) = Some b' \<and>
           spentSoFar b' = clampZero (spentSoFar b - t_amount t) \<and> 0 \<le> spentSoFar b'"
  using assms
  by (auto simp: deleteTransaction_def revertBudgetImpact_def Let_def clampZero_def
      dest!: Budget_save_Inr split: if_splits sum.splits)

text \<open>
  C9. No operation of the transaction controller makes \<open>spentSoFar\<close> negative. A delete
  of an expense whose month has a budget leaves that budget with the old value minus the
  amount, floored at zero, whatever the old value was; and when no budget is negative
  before an add, an edit or a delete, none is negative after it, whether the request
  succeeds or fails.
\<close>

theorem spentSoFar_never_negative:
  "(deleteTransaction tz uid i db = (Inr (), db') \<and>
      findById i (transactions db) = Some t \<and> t_type t = ''expense'' \<and>
      budgets db (uid, monthOf tz (t_date t)) = Some b \<longrightarrow>
      (\<exists>b'. budgets db' (uid, monthOf tz (t_date t)) = Some b' \<and>
             spentSoFar b' = clampZero (spentSoFar b - t_amount t) \<and> 0 \<le> spentSoFar b')) \<and>
   (spentNonNegative db \<longrightarrow> spentNonNegative (snd (handle tz r db)))"
proof (intro conjI impI)
  assume "deleteTransaction tz uid i db = (Inr (), db') \<and>
      findById i (transactions db) = Some t \<and> t_type t = ''expense'' \<and>
      budgets db (uid, monthOf tz (t_date t)) = Some b"
  then show "\<exists>b'. budgets db' (uid, monthOf tz (t_date t)) = Some b' \<and>
             spentSoFar b' = clampZero (spentSoFar b - t_amount t) \<and> 0 \<le> spentSoFar b'"
    using delete_clamps by blast
next
  assume "spentNonNegative db"
  then show "spentNonNegative (snd (handle tz r db))"
    by (cases r) (simp_all add: add_nonneg delete_nonneg update_nonneg split: prod.splits,
        (metis add_nonneg delete_nonneg update_nonneg snd_conv)+)
qed

lemmas example_defs =
  exampleStore_def exampleExpense_def amountOnly_def findById_def monthOf_example
  Budget_save_def budget_valid_def

theorem spentSoFar_never_negative_witness:
  "(deleteTransaction 0 7 1 (exampleStore 100 1000 30) =
      (Inr (), (exampleStore 100 1000 0)\<lparr>transactions := []\<rparr>) \<and>
    findById 1 (transactions (exampleStore 100 1000 30)) = Some (exampleExpense 100) \<and>
    t_type (exampleExpense 100) = ''expense'' \<and>
    budgets (exampleStore 100 1000 30) (7, monthOf 0 (t_date (exampleExpense 100)))
      = Some \<lparr>monthlyBudget = 1000, spentSoFar = 30\<rparr>) \<and>
   (\<exists>b'. budgets ((exampleStore 100 1000 0)\<lparr>transactions := []\<rparr>)
            (7, monthOf 0 (t_date (exampleExpense 100))) = Some b' \<and>
          spentSoFar b' = clampZero (30 - 100) \<and> 0 \<le> spentSoFar b') \<and>
   spentNonNegative (exampleStore 100 1000 30) \<and>
   spentNonNegative (snd (handle 0 (Delete 7 1) (exampleStore 100 1000 30)))"
proof -
  have h1: "deleteTransaction 0 7 1 (exampleStore 100 1000 30) =
      (Inr (), (exampleStore 100 1000 0)\<lparr>transactions := []\<rparr>)"
    by (simp add: deleteTransaction_def revertBudgetImpact_def example_defs)
  have h2: "findById 1 (transactions (exampleStore 100 1000 30)) = Some (exampleExpense 100)"
    by (simp add: example_defs)
  have h3: "t_type (exampleExpense 100) = ''expense''"
    by (simp add: example_defs)
  have h4: "budgets (exampleStore 100 1000 30) (7, monthOf 0 (t_date (exampleExpense 100)))
      = Some \<lparr>monthlyBudget = 1000, spentSoFar = 30\<rparr>"
    by (simp add: example_defs)
  have h5: "spentNonNegative (exampleStore 100 1000 30)"
    by (simp add: spentNonNegative_def example_defs)
  from spentSoFar_never_negative[of 0 7 1 "exampleStore 100 1000 30"
      "(exampleStore 100 1000 0)\<lparr>transactions := []\<rparr>" "exampleExpense 100"
      "\<lparr>monthlyBudget = 1000, spentSoFar = 30\<rparr>" "Delete 7 1"]
  show ?thesis using h1 h2 h3 h4 h5 by (simp add: exampleExpense_def)
qed

subsection \<open>Rejected requests\<close>

text \<open>Add checks the amount before it writes anything.\<close>

lemma addTransaction_rejects_non_positive:
  assumes "b_amount body = Some a" "a \<le> 0"
  shows "\<exists>msg. addTransaction tz uid body db = (Inl (ApiError 400 msg), db)"
proof (cases "b_type body = None \<or> b_category body = None \<or> b_date body = None")
  case True
  then show ?thesis using assms by (simp add: add_None)
next
  case False
  then obtain ty c d where
    "b_type body = Some ty" "b_category body = Some c" "b_date body = Some d"
    by auto
  then show ?thesis using assms by (simp add: add_Some)
qed

text \<open>Edit reverts the old amount on the budget first; the negative amount is only
  found by the validator of \<open>transaction.save()\<close>, after the budget has been saved.\<close>

lemma updateTransaction_negative_amount:
  assumes "findById i (transactions db) = Some t" "t_user t = uid" "t_type t = ''expense''"
    and "budgets db (uid, monthOf tz (t_date t)) = Some b" "budget_valid b"
    and "b_amount body = Some a" "a < 0"
  shows "updateTransaction tz uid i body db =
           (Inl (ValidationError ''Transaction validation failed''),
            db\<lparr>budgets := (budgets db)((uid, monthOf tz (t_date t)) \<mapsto>
                   b\<lparr>spentSoFar := clampZero (spentSoFar b - t_amount t)\<rparr>)\<rparr>)"
  using assms
  by (simp add: updateTransaction_def revertBudgetImpact_def Budget_save_def budget_valid_def
      clampZero_def updateFields_def transaction_valid_def Let_def)

text \<open>
  C5. A transaction mutation with a non-positive amount is to be rejected before any
  write, leaving ledger and aggregate as they were. Add does so
  (\<open>addTransaction_rejects_non_positive\<close>). Edit does not: with the expense of 100 in a
  month whose budget has spent 100, the edit to the amount -5 is rejected with a
  validation error and the ledger keeps the amount 100, but the budget has been written
  and now says 0.
\<close>

theorem updateTransaction_negative_amount_partial_effect:
  "updateTransaction 0 7 1 (amountOnly (- 5)) (exampleStore 100 1000 100) =
     (Inl (ValidationError ''Transaction validation failed''), exampleStore 100 1000 0) \<and>
   transactions (exampleStore 100 1000 0) = transactions (exampleStore 100 1000 100) \<and>
   budgets (exampleStore 100 1000 100) (7, (2024, 5)) =
     Some \<lparr>monthlyBudget = 1000, spentSoFar = 100\<rparr> \<and>
   budgets (exampleStore 100 1000 0) (7, (2024, 5)) =
     Some \<lparr>monthlyBudget = 1000, spentSoFar = 0\<rparr>"
  by (simp add: updateTransaction_def revertBudgetImpact_def updateFields_def
      transaction_valid_def example_defs)

text \<open>
  C1. After every sequence of add, edit and delete requests that starts from a budget
  whose \<open>spentSoFar\<close> is the sum of the live expenses of its month, \<open>spentSoFar\<close> is to be
  that sum again (floored at zero). The sequence of the single rejected edit above starts
  from such a budget (100 = 100) and ends with \<open>spentSoFar = 0\<close> while the live expenses
  of the month still sum to 100.
\<close>

theorem rejected_edit_breaks_consistency:
  "budgets (exampleStore 100 1000 100) (7, (2024, 5)) =
     Some \<lparr>monthlyBudget = 1000, spentSoFar = 100\<rparr> \<and>
   liveExpenseSum 0 7 (2024, 5) (transactions (exampleStore 100 1000 100)) = 100 \<and>
   budgets (run 0 [Update 7 1 (amountOnly (- 5))] (exampleStore 100 1000 100)) (7, (2024, 5)) =
     Some \<lparr>monthlyBudget = 1000, spentSoFar = 0\<rparr> \<and>
   clampZero (liveExpenseSum 0 7 (2024, 5)
     (transactions (run 0 [Update 7 1 (amountOnly (- 5))] (exampleStore 100 1000 100)))) = 100"
  by (simp add: updateTransaction_def revertBudgetImpact_def updateFields_def
      transaction_valid_def example_defs liveExpenseSum_def clampZero_def)

lemma revert_unclamped:
  assumes "t_type t = ''expense''" "budgets db (uid, monthOf tz (t_date t)) = Some b"
    and "t_amount t \<le> spentSoFar b" "revertBudgetImpact tz uid t db = Inr db1"
  shows "db1 = db\<lparr>budgets := (budgets db)((uid, monthOf tz (t_date t)) \<mapsto>
                  b\<lparr>spentSoFar := spentSoFar b - t_amount t\<rparr>)\<rparr>"
  using assms
  by (auto simp: revertBudgetImpact_def Let_def dest!: Budget_save_Inr split: if_splits)

subsection \<open>Editing an amount\<close>

text \<open>
  C2, amended. An accepted edit of an expense that leaves type and date as they are,
  in a month that has a budget whose \<open>spentSoFar\<close> is at least the old amount, stores the
  fields of the request body and changes \<open>spentSoFar\<close> by exactly the new amount minus the
  old one, when the old amount, the new amount, \<open>spentSoFar\<close> and its new value are whole
  numbers up to \<open>2^53\<close>. (When \<open>spentSoFar\<close> is below the old amount the revert step floors
  it at zero, and the change is larger. The restriction to whole numbers is where the
  subtraction and the addition of the code, done one after the other in double
  precision, are exact.)
\<close>

theorem edit_amount_delta:
  assumes "updateTransaction tz uid i body db = (Inr t', db')"
    and "findById i (transactions db) = Some t"
    and "t_type t = ''expense''" "t_type t' = t_type t" "t_date t' = t_date t"
    and "budgets db (uid, monthOf tz (t_date t)) = Some b"
    and "t_amount t \<le> spentSoFar b"
    and "safeInteger (spentSoFar b)" "safeInteger (t_amount t)" "safeInteger (t_amount t')"
    and "safeInteger (spentSoFar b - t_amount t + t_amount t')"
  shows "t' = updateFields body t \<and>
         (\<exists>b'. budgets db' (uid, monthOf tz (t_date t)) = Some b' \<and>
               spentSoFar b' = spentSoFar b + (t_amount t' - t_amount t))"
proof -
  have own: "t_user t = uid"
    using assms(1,2) by (auto simp: updateTransaction_def split: if_splits)
  obtain db1 where r: "revertBudgetImpact tz uid t db = Inr db1"
    using assms(1,2) own by (cases "revertBudgetImpact tz uid t db") (auto simp: updateTransaction_def)
  have db1: "db1 = db\<lparr>budgets := (budgets db)((uid, monthOf tz (t_date t)) \<mapsto>
                  b\<lparr>spentSoFar := spentSoFar b - t_amount t\<rparr>)\<rparr>"
    using revert_unclamped[OF assms(3) assms(6) assms(7) r] .
  have valid: "transaction_valid (updateFields body t)"
    using assms(1,2) own r by (auto simp: updateTransaction_def Let_def split: if_splits)
  let ?t = "updateFields body t"
  let ?db2 = "db1\<lparr>transactions := map (\<lambda>x. if t_id x = i then ?t else x) (transactions db1)\<rparr>"
  have fin: "applyBudgetImpact tz uid (t_type ?t) (t_date ?t) (t_amount ?t) ?db2 = Inr db' \<and> t' = ?t"
    using assms(1,2) own r valid
    by (auto simp: updateTransaction_def Let_def split: sum.splits)
  then have t': "t' = ?t" by simp
  have "applyBudgetImpact tz uid ''expense'' (t_date t) (t_amount t') ?db2 = Inr db'"
    using fin assms(3,4,5) t' by simp
  then have "\<exists>b'. budgets db' (uid, monthOf tz (t_date t)) = Some b' \<and>
               spentSoFar b' = spentSoFar b + (t_amount t' - t_amount t)"
    using db1 by (auto simp: applyBudgetImpact_def dest!: Budget_save_Inr)
  then show ?thesis using t' by simp
qed

theorem edit_amount_delta_witness:
  "updateTransaction 0 7 1 (amountOnly 150) (exampleStore 100 1000 100) =
     (Inr (exampleExpense 150), exampleStore 150 1000 150) \<and>
   findById 1 (transactions (exampleStore 100 1000 100)) = Some (exampleExpense 100) \<and>
   t_type (exampleExpense 100) = ''expense'' \<and>
   t_type (exampleExpense 150) = t_type (exampleExpense 100) \<and>
   t_date (exampleExpense 150) = t_date (exampleExpense 100) \<and>
   budgets (exampleStore 100 1000 100) (7, monthOf 0 (t_date (exampleExpense 100))) =
     Some \<lparr>monthlyBudget = 1000, spentSoFar = 100\<rparr> \<and>
   t_amount (exampleExpense 100) \<le> spentSoFar \<lparr>monthlyBudget = 1000, spentSoFar = 100\<rparr> \<and>
   safeInteger (spentSoFar \<lparr>monthlyBudget = 1000, spentSoFar = 100\<rparr>) \<and>
   safeInteger (t_amount (exampleExpense 100)) \<and> safeInteger (t_amount (exampleExpense 150)) \<and>
   safeInteger (spentSoFar \<lparr>monthlyBudget = 1000, spentSoFar = 100\<rparr>
                  - t_amount (exampleExpense 100) + t_amount (exampleExpense 150)) \<and>
   exampleExpense 150 = updateFields (amountOnly 150) (exampleExpense 100) \<and>
   (\<exists>b'. budgets (exampleStore 150 1000 150) (7, monthOf 0 (t_date (exampleExpense 100))) = Some b' \<and>
          spentSoFar b' = 100 + (150 - 100))"
proof -
  have h1: "updateTransaction 0 7 1 (amountOnly 150) (exampleStore 100 1000 100) =
     (Inr (exampleExpense 150), exampleStore 150 1000 150)"
    by (simp add: updateTransaction_def revertBudgetImpact_def applyBudgetImpact_def
        updateFields_def transaction_valid_def example_defs Let_def)
  have h2: "findById 1 (transactions (exampleStore 100 1000 100)) = Some (exampleExpense 100)"
    by (simp add: example_defs)
  have h6: "budgets (exampleStore 100 1000 100) (7, monthOf 0 (t_date (exampleExpense 100))) =
     Some \<lparr>monthlyBudget = 1000, spentSoFar = 100\<rparr>"
    by (simp add: example_defs)
  have h3: "t_type (exampleExpense 100) = ''expense''"
    and h4: "t_type (exampleExpense 150) = t_type (exampleExpense 100)"
    and h5: "t_date (exampleExpense 150) = t_date (exampleExpense 100)"
    and h7: "t_amount (exampleExpense 100) \<le> spentSoFar \<lparr>monthlyBudget = 1000, spentSoFar = 100\<rparr>"
    by (simp_all add: exampleExpense_def)
  have h8: "safeInteger (spentSoFar \<lparr>monthlyBudget = 1000, spentSoFar = 100\<rparr>)"
    and h9: "safeInteger (t_amount (exampleExpense 100))"
    and h10: "safeInteger (t_amount (exampleExpense 150))"
    and h11: "safeInteger (spentSoFar \<lparr>monthlyBudget = 1000, spentSoFar = 100\<rparr>
                  - t_amount (exampleExpense 100) + t_amount (exampleExpense 150))"
    by (simp_all add: safeInteger_def exampleExpense_def)
  from edit_amount_delta[OF h1 h2 h3 h4 h5 h6 h7 h8 h9 h10 h11]
  show ?thesis using h1 h2 h3 h4 h5 h6 h7 h8 h9 h10 h11 by (simp add: exampleExpense_def)
qed

text \<open>The claim as stated fails where the aggregate has drifted below the old amount:
  with \<open>spentSoFar = 50\<close> and the amount edited from 100 to 150, \<open>spentSoFar\<close> becomes 150,
  a change of 100 and not of 50.\<close>

theorem edit_amount_delta_counterexample:
  "updateTransaction 0 7 1 (amountOnly 150) (exampleStore 100 1000 50) =
     (Inr (exampleExpense 150), exampleStore 150 1000 150) \<and>
   budgets (exampleStore 100 1000 50) (7, (2024, 5)) =
     Some \<lparr>monthlyBudget = 1000, spentSoFar = 50\<rparr> \<and>
   budgets (exampleStore 150 1000 150) (7, (2024, 5)) =
     Some \<lparr>monthlyBudget = 1000, spentSoFar = 150\<rparr> \<and>
   (150 :: rat) - 50 \<noteq> t_amount (exampleExpense 150) - t_amount (exampleExpense 100)"
  by (simp add: updateTransaction_def revertBudgetImpact_def applyBudgetImpact_def
        updateFields_def transaction_valid_def example_defs Let_def)

subsection \<open>Setting the budget\<close>

lemma sumAmounts_sum_list: "sumAmounts ts = sum_list (map t_amount ts)"
proof -
  have "foldl (\<lambda>sum txn. sum + t_amount txn) a ts = a + sum_list (map t_amount ts)" for a
    by (induction ts arbitrary: a) (simp_all add: add.assoc)
  then show ?thesis by (simp add: sumAmounts_def)
qed

text \<open>For every valid limit, \<open>setBudget\<close> stores the limit and the sum of the expenses of
  its scan window, whether or not the budget existed and whatever it held.\<close>

lemma setBudget_recomputes:
  assumes "0 < mb"
  shows "\<exists>fields db'.
           setBudget tz now uid (Some mb) db = (Inr fields, db') \<and>
           budgets db' (uid, getCurrentMonth tz now) =
             Some \<lparr>monthlyBudget = mb,
                   spentSoFar = sum_list (map t_amount
                     (monthExpenses tz uid (getCurrentMonth tz now) (transactions db)))\<rparr> \<and>
           transactions db' = transactions db"
  using assms
  by (cases "budgets db (uid, getCurrentMonth tz now)")
    (simp_all add: setBudget_def Let_def Budget_save_def budget_valid_def sumAmounts_sum_list)

text \<open>
  C3. After a budget-set, \<open>spentSoFar\<close> is to be the sum of the user's expenses dated in
  the current month. The scan window starts at \<open>new Date(month + "-01")\<close>, which is
  midnight UTC, and ends at the end of the month that this instant has in local time.
  On a server five hours west of UTC the instant 2024-05-01T00:00Z is still in April, so
  the window for May 2024 ends at 2024-05-01T04:59:59.999Z: the expense of 100 dated
  2024-05-15 lies in May (and add, edit and delete count it under the key 2024-05),
  yet the budget set on that day is stored with \<open>spentSoFar = 0\<close>. Only where local
  time is UTC is the window the month (\<open>setBudget_exact_in_UTC\<close> below).
\<close>

theorem setBudget_window_west_of_UTC:
  "getCurrentMonth (- 300) 1715774400000 = (2024, 5) \<and>
   monthOf (- 300) (t_date (exampleExpense 100)) = (2024, 5) \<and>
   liveExpenseSum (- 300) 7 (2024, 5) (transactions (exampleStore 100 1000 100)) = 100 \<and>
   monthStartDate (2024, 5) = 1714521600000 \<and>
   monthEndDate (- 300) (2024, 5) = 1714539599999 \<and>
   setBudget (- 300) 1715774400000 7 (Some 500) (exampleStore 100 1000 100) =
     (Inr \<lparr>bf_month = (2024, 5), bf_monthlyBudget = 500, bf_spentSoFar = 0,
           bf_remaining = 500, bf_percentageUsed = 0, bf_statusColor = ''green''\<rparr>,
      exampleStore 100 500 0)"
proof -
  have m: "getCurrentMonth (- 300) 1715774400000 = (2024, 5)"
    by code_simp
  have s: "monthStartDate (2024, 5) = 1714521600000"
    by code_simp
  have e: "monthEndDate (- 300) (2024, 5) = 1714539599999"
    by code_simp
  have m': "monthOf (- 300) 1715774400000 = (2024, 5)"
    using m by (simp add: getCurrentMonth_def)
  have r: "Math_round 0 = 0"
    by code_simp
  show ?thesis
    by (simp add: m m' s e r setBudget_def monthExpenses_def sumAmounts_def liveExpenseSum_def
        calculateBudgetFields_def Let_def
        exampleStore_def exampleExpense_def Budget_save_def budget_valid_def)
qed

text \<open>Five hours east of UTC the window starts five hours into the month: an expense
  dated 2024-05-01T02:00 local time has the key 2024-05 and lies before the window.\<close>

lemma setBudget_window_east_of_UTC:
  "monthOf 300 1714510800000 = (2024, 5) \<and>
   getCurrentMonth 300 1715774400000 = (2024, 5) \<and>
   \<not> (monthStartDate (2024, 5) \<le> 1714510800000)"
  by code_simp

subsection \<open>The scan window in UTC\<close>

text \<open>On a server whose local time is UTC the scan window of \<open>setBudget\<close> is the month:
  the year and month of a day are found correctly, and an instant lies between the first
  and the last millisecond of a month exactly when its month key is that month.\<close>

lemma div_bounds:
  fixes x n :: int
  assumes "0 < n"
  shows "n * (x div n) \<le> x" "x < n * (x div n) + n"
proof -
  have "x = n * (x div n) + x mod n" by simp
  moreover have "0 \<le> x mod n" "x mod n < n" using assms by simp_all
  ultimately show "n * (x div n) \<le> x" "x < n * (x div n) + n" by linarith+
qed

lemma DayFromYear_bounds:
  "146097 * y - 287811697 < 400 * DayFromYear y"
  "400 * DayFromYear y \<le> 146097 * y - 287810497"
proof -
  define A where "A = (y - 1969) div 4"
  define B where "B = (y - 1901) div 100"
  define C where "C = (y - 1601) div 400"
  have a: "4 * A \<le> y - 1969" "y - 1969 < 4 * A + 4"
    unfolding A_def by (rule div_bounds, simp)+
  have b: "100 * B \<le> y - 1901" "y - 1901 < 100 * B + 100"
    unfolding B_def by (rule div_bounds, simp)+
  have c: "400 * C \<le> y - 1601" "y - 1601 < 400 * C + 400"
    unfolding C_def by (rule div_bounds, simp)+
  have "DayFromYear y = 365 * y - 719050 + A - B + C"
    by (simp add: DayFromYear_def A_def B_def C_def)
  then have d: "400 * DayFromYear y = 146000 * y - 287620000 + 400 * A - 400 * B + 400 * C"
    by simp
  show "146097 * y - 287811697 < 400 * DayFromYear y"
    unfolding d using a b c by linarith
  show "400 * DayFromYear y \<le> 146097 * y - 287810497"
    unfolding d using a b c by linarith
qed

lemma DayFromYear_strict_mono:
  assumes "y < y'"
  shows "DayFromYear y < DayFromYear y'"
  using DayFromYear_bounds(2)[of y] DayFromYear_bounds(1)[of y'] assms by linarith

lemma YearFromDay_range:
  "DayFromYear (YearFromDay d) \<le> d \<and> d < DayFromYear (YearFromDay d + 1)"
proof -
  define q where "q = (400 * d) div 146097"
  have q: "146097 * q \<le> 400 * d" "400 * d < 146097 * q + 146097"
    unfolding q_def by (rule div_bounds, simp)+
  define g1 where "g1 = 1969 + q"
  define g2 where "g2 = 1972 + q"
  have "DayFromYear g1 \<le> d"
    using DayFromYear_bounds(2)[of g1] q g1_def by linarith
  then have lo: "DayFromYear (1969 + q) \<le> d" by (simp add: g1_def)
  have "d < DayFromYear g2"
    using DayFromYear_bounds(1)[of g2] q g2_def by linarith
  then have hi: "d < DayFromYear (1972 + q)" by (simp add: g2_def)
  have y: "YearFromDay d =
             (if d < DayFromYear (1970 + q) then 1969 + q
              else if DayFromYear (1971 + q) \<le> d then 1971 + q else 1970 + q)"
    by (simp add: YearFromDay_def Let_def q_def add.commute)
  show ?thesis
    unfolding y using lo hi by (auto simp: add.commute add.left_commute)
qed

lemma YearFromDay_unique:
  assumes "DayFromYear y \<le> d" "d < DayFromYear (y + 1)"
  shows "YearFromDay d = y"
proof (rule ccontr)
  assume ne: "YearFromDay d \<noteq> y"
  note r = YearFromDay_range[of d]
  show False
  proof (cases "YearFromDay d < y")
    case True
    then have "DayFromYear (YearFromDay d + 1) \<le> DayFromYear y"
      using DayFromYear_strict_mono[of "YearFromDay d + 1" y] by (cases "YearFromDay d + 1 = y") auto
    then show False using r assms by linarith
  next
    case False
    then have "y + 1 \<le> YearFromDay d" using ne by linarith
    then have "DayFromYear (y + 1) \<le> DayFromYear (YearFromDay d)"
      using DayFromYear_strict_mono[of "y + 1" "YearFromDay d"] by (cases "y + 1 = YearFromDay d") auto
    then show False using r assms by linarith
  qed
qed


lemma DayFromYear_gap: "DayFromYear y + 362 < DayFromYear (y + 1)"
proof -
  define y' where "y' = y + 1"
  have "DayFromYear y + 362 < DayFromYear y'"
    using DayFromYear_bounds(2)[of y] DayFromYear_bounds(1)[of y'] y'_def by linarith
  then show ?thesis by (simp add: y'_def)
qed

lemma MakeDay_first:
  assumes "0 \<le> k" "k \<le> 11"
  shows "MakeDay y k 1 = DayFromYear y + monthStart (InLeapYear y) k"
  using assms by (simp add: MakeDay_def Let_def)

lemma MakeDay_last:
  assumes "0 \<le> k" "k \<le> 11"
  shows "MakeDay y (k + 1) 0 =
           (if k = 11 then DayFromYear (y + 1) - 1
            else DayFromYear y + monthStart (InLeapYear y) (k + 1) - 1)"
proof (cases "k = 11")
  case True
  then show ?thesis by (simp add: MakeDay_def Let_def monthStart_def)
next
  case False
  then have "(k + 1) div 12 = 0" "(k + 1) mod 12 = k + 1" using assms by simp_all
  then show ?thesis using False by (simp add: MakeDay_def Let_def)
qed

lemma month_cases:
  assumes "0 \<le> k" "k \<le> 11"
  shows "k = 0 \<or> k = 1 \<or> k = 2 \<or> k = 3 \<or> k = 4 \<or> k = 5 \<or> k = 6 \<or> k = 7 \<or> k = 8 \<or>
         k = 9 \<or> k = 10 \<or> k = (11::int)"
  using assms by arith

lemma MonthFromDay_iff:
  assumes y: "YearFromDay d = y" and k: "0 \<le> k" "k \<le> 11"
  shows "MonthFromDay d = k \<longleftrightarrow>
           DayFromYear y + monthStart (InLeapYear y) k \<le> d \<and>
           (k < 11 \<longrightarrow> d < DayFromYear y + monthStart (InLeapYear y) (k + 1))"
proof -
  have lo: "DayFromYear y \<le> d" using YearFromDay_range[of d] y by simp
  show ?thesis
    using month_cases[OF k] lo
    by (elim disjE) (auto simp: MonthFromDay_def monthStart_def Let_def y)
qed


lemma monthStart_le_335: "0 \<le> monthStart leap k \<and> monthStart leap k \<le> 335"
  by (simp add: monthStart_def Let_def)

lemma monthStart_next:
  assumes "0 \<le> k" "k < 11"
  shows "monthStart leap k < monthStart leap (k + 1)"
  using month_cases[of k] assms by (auto simp: monthStart_def Let_def)

lemma month_window:
  assumes k: "0 \<le> k" "k \<le> 11"
  shows "(MakeDay y k 1 \<le> d \<and> d \<le> MakeDay y (k + 1) 0) \<longleftrightarrow>
         (YearFromDay d = y \<and> MonthFromDay d = k)"
proof
  assume w: "MakeDay y k 1 \<le> d \<and> d \<le> MakeDay y (k + 1) 0"
  have lo: "DayFromYear y + monthStart (InLeapYear y) k \<le> d"
    using w MakeDay_first[OF k] by simp
  have hi: "k < 11 \<Longrightarrow> d < DayFromYear y + monthStart (InLeapYear y) (k + 1)"
    using w MakeDay_last[OF k, of y] by simp
  have hi': "d < DayFromYear (y + 1)"
  proof (cases "k = 11")
    case True
    then show ?thesis using w MakeDay_last[OF k, of y] by simp
  next
    case False
    then have "d < DayFromYear y + monthStart (InLeapYear y) (k + 1)" using hi k by simp
    then show ?thesis
      using monthStart_le_335[of "InLeapYear y" "k + 1"] DayFromYear_gap[of y] by linarith
  qed
  have "DayFromYear y \<le> d" using lo monthStart_le_335[of "InLeapYear y" k] by linarith
  then have yr: "YearFromDay d = y" using hi' by (rule YearFromDay_unique)
  then show "YearFromDay d = y \<and> MonthFromDay d = k"
    using MonthFromDay_iff[OF yr k] lo hi by simp
next
  assume a: "YearFromDay d = y \<and> MonthFromDay d = k"
  then have yr: "YearFromDay d = y" and mo: "MonthFromDay d = k" by simp_all
  have lo: "DayFromYear y + monthStart (InLeapYear y) k \<le> d"
    and hi: "k < 11 \<longrightarrow> d < DayFromYear y + monthStart (InLeapYear y) (k + 1)"
    using MonthFromDay_iff[OF yr k] mo by simp_all
  have top: "d < DayFromYear (y + 1)" using YearFromDay_range[of d] yr by simp
  show "MakeDay y k 1 \<le> d \<and> d \<le> MakeDay y (k + 1) 0"
    using lo hi top k by (simp add: MakeDay_first[OF k] MakeDay_last[OF k])
qed


lemma first_day_in_month:
  assumes k: "0 \<le> k" "k \<le> 11"
  shows "YearFromDay (MakeDay y k 1) = y \<and> MonthFromDay (MakeDay y k 1) = k"
proof -
  have "MakeDay y k 1 \<le> MakeDay y (k + 1) 0"
  proof (cases "k = 11")
    case True
    have "MakeDay y k 1 = DayFromYear y + monthStart (InLeapYear y) k"
      by (rule MakeDay_first[OF k])
    moreover have "MakeDay y (k + 1) 0 = DayFromYear (y + 1) - 1"
      using MakeDay_last[OF k, of y] True by simp
    ultimately show ?thesis
      using monthStart_le_335[of "InLeapYear y" k] DayFromYear_gap[of y] by linarith
  next
    case False
    have "MakeDay y k 1 = DayFromYear y + monthStart (InLeapYear y) k"
      by (rule MakeDay_first[OF k])
    moreover have "MakeDay y (k + 1) 0 = DayFromYear y + monthStart (InLeapYear y) (k + 1) - 1"
      using MakeDay_last[OF k, of y] False by simp
    ultimately show ?thesis
      using monthStart_next[of k "InLeapYear y"] k False by linarith
  qed
  then show ?thesis using month_window[OF k, of y "MakeDay y k 1"] by simp
qed

lemma window_utc:
  assumes mm: "1 \<le> mm" "mm \<le> 12"
  shows "(monthStartDate (y, mm) \<le> t \<and> t \<le> monthEndDate 0 (y, mm)) \<longleftrightarrow> monthOf 0 t = (y, mm)"
proof -
  define k where "k = mm - 1"
  have k: "0 \<le> k" "k \<le> 11" using mm by (simp_all add: k_def)
  define S where "S = MakeDay y k 1"
  define E where "E = MakeDay y (k + 1) 0"
  define D where "D = t div 86400000"
  have start: "monthStartDate (y, mm) = S * 86400000"
    by (simp add: monthStartDate_def newDateMonthFirst_def msPerDay_def S_def k_def)
  have fd: "YearFromDay S = y" "MonthFromDay S = k"
    using first_day_in_month[OF k, of y] by (simp_all add: S_def)
  have "monthEndDate 0 (y, mm) = MakeDay y (k + 1) 0 * 86400000 + 86399999"
    by (simp add: monthEndDate_def Let_def start getFullYear_def getMonth_def localDay_def
        msPerDay_def newDateLocal_def fd)
  then have end': "monthEndDate 0 (y, mm) = E * 86400000 + 86399999"
    by (simp add: E_def)
  have D: "86400000 * D \<le> t" "t < 86400000 * D + 86400000"
    unfolding D_def by (rule div_bounds, simp)+
  have "(S * 86400000 \<le> t \<and> t \<le> E * 86400000 + 86399999) \<longleftrightarrow> (S \<le> D \<and> D \<le> E)"
    using D by linarith
  also have "\<dots> \<longleftrightarrow> (YearFromDay D = y \<and> MonthFromDay D = k)"
    unfolding S_def E_def by (rule month_window[OF k])
  also have "\<dots> \<longleftrightarrow> monthOf 0 t = (y, mm)"
    by (auto simp: monthOf_def getFullYear_def getMonth_def localDay_def msPerDay_def D_def k_def)
  finally show ?thesis by (simp add: start end')
qed

lemma getMonth_range: "0 \<le> getMonth tz t \<and> getMonth tz t \<le> 11"
  by (simp add: getMonth_def MonthFromDay_def Let_def)

lemma monthExpenses_utc:
  "monthExpenses 0 uid (getCurrentMonth 0 now) ts =
     filter (\<lambda>t. t_user t = uid \<and> t_type t = ''expense'' \<and>
                 monthOf 0 (t_date t) = getCurrentMonth 0 now) ts"
proof -
  obtain y mm where m: "getCurrentMonth 0 now = (y, mm)" by (cases "getCurrentMonth 0 now")
  then have "mm = getMonth 0 now + 1" by (simp add: getCurrentMonth_def monthOf_def)
  then have mm: "1 \<le> mm" "mm \<le> 12" using getMonth_range[of 0 now] by simp_all
  show ?thesis
    unfolding monthExpenses_def m
    by (rule filter_cong) (simp_all add: window_utc[OF mm])
qed

text \<open>So in UTC a budget-set stores the sum of the user's expenses whose month key is
  the current month, which is what add, edit and delete maintain.\<close>

lemma setBudget_exact_in_UTC:
  assumes "0 < mb"
  shows "\<exists>fields db'.
           setBudget 0 now uid (Some mb) db = (Inr fields, db') \<and>
           budgets db' (uid, getCurrentMonth 0 now) =
             Some \<lparr>monthlyBudget = mb,
                   spentSoFar = liveExpenseSum 0 uid (getCurrentMonth 0 now) (transactions db)\<rparr>"
  using setBudget_recomputes[OF assms, of 0 now uid db]
  by (auto simp: monthExpenses_utc liveExpenseSum_def)

subsection \<open>Forecast\<close>

lemma Math_round_of_int [simp]: "Math_round (of_int n) = n"
  by (simp add: Math_round_def floor_eq_iff)

text \<open>The two conventions on every input with the numbers of the example: the site
  with the medium threshold 60 rounds the daily average and answers medium, the sites
  with the threshold 75 do not round it and answer low.\<close>

lemma forecast_example:
  assumes "budgets db (uid, getCurrentMonth tz now) = Some b"
    and "monthlyBudget b = 10000" "spentSoFar b = 6000"
    and "expensesSince uid (daysAgo 30 now) (transactions db) \<noteq> []"
    and "getRemainingDays tz now = 10"
  shows
    "(Math_round (sumAmounts (expensesSince uid (daysAgo 30 now) (transactions db)) / 30) = 100 \<longrightarrow>
       (\<exists>f. getForecast tz now True uid db = ForecastResult f \<and>
            dailyAverage f = 100 \<and> remainingDays f = 10 \<and>
            predictedExpenses f = 7000 \<and>
            rat_of_int (predictedExpenses f) / f_monthlyBudget f * 100 = 70 \<and>
            riskLevel f = ''medium'')) \<and>
     (sumAmounts (expensesSince uid (daysAgo 30 now) (transactions db)) / 30 = 100 \<longrightarrow>
       getForecastRisk tz now uid (Some b) db = ''low'' \<and>
       (budgets db (uid, monthOf tz (newDateLocal tz (getFullYear tz now) (getMonth tz now) 1 0 0 0 0))
          = Some b \<longrightarrow>
        (\<exists>msg. forecastInsight tz now True uid db = Some (''low'', msg))))"
proof (intro conjI impI)
  assume avg: "Math_round (sumAmounts (expensesSince uid (daysAgo 30 now) (transactions db)) / 30) = 100"
  have p: "Math_round 7000 = 7000"
    using Math_round_of_int[of 7000] by simp
  show "\<exists>f. getForecast tz now True uid db = ForecastResult f \<and>
            dailyAverage f = 100 \<and> remainingDays f = 10 \<and>
            predictedExpenses f = 7000 \<and>
            rat_of_int (predictedExpenses f) / f_monthlyBudget f * 100 = 70 \<and>
            riskLevel f = ''medium''"
    using assms avg p by (simp add: getForecast_def Let_def)
next
  assume avg: "sumAmounts (expensesSince uid (daysAgo 30 now) (transactions db)) / 30 = 100"
  show "getForecastRisk tz now uid (Some b) db = ''low''"
    using assms avg by (simp add: getForecastRisk_def Let_def)
next
  assume avg: "sumAmounts (expensesSince uid (daysAgo 30 now) (transactions db)) / 30 = 100"
    and k: "budgets db (uid, monthOf tz (newDateLocal tz (getFullYear tz now) (getMonth tz now) 1 0 0 0 0)) = Some b"
  show "\<exists>msg. forecastInsight tz now True uid db = Some (''low'', msg)"
    using assms avg k by (simp add: forecastInsight_def Let_def)
qed

lemma forecast_example_dates:
  "getCurrentMonth 0 forecastNow = (2024, 5)"
  "getRemainingDays 0 forecastNow = 10"
  "daysAgo 30 forecastNow \<le> 1715774400000"
  "monthOf 0 (newDateLocal 0 (getFullYear 0 forecastNow) (getMonth 0 forecastNow) 1 0 0 0 0) = (2024, 5)"
  by code_simp+

lemma forecast_example_rounding:
  "Math_round 100 = 100" "Math_round 7000 = 7000" "Math_round (- 3000) = - 3000"
  by code_simp+

lemma forecast_example_expenses:
  "expensesSince 7 (daysAgo 30 forecastNow) (transactions forecastStore) = [exampleExpense 3000]"
  using forecast_example_dates(3)
  by (simp add: expensesSince_def forecastStore_def exampleStore_def exampleExpense_def)

lemma forecast_example_budget:
  "budgets forecastStore (7, (2024, 5)) = Some \<lparr>monthlyBudget = 10000, spentSoFar = 6000\<rparr>"
  by (simp add: forecastStore_def exampleStore_def)

text \<open>
  C4. With a budget of 10000, 6000 spent, ten remaining days and a daily average of 100,
  the predicted expense is 7000, which is 70% of the budget, and one convention for the
  tier is to hold at every site that computes it. On the store of the example the three
  sites get the same numbers and do not answer alike: \<open>getForecast\<close>, whose medium
  threshold is 60, answers medium, and \<open>getForecastRisk\<close> and the forecast insight of the
  dashboard, whose medium threshold is 75, answer low.
\<close>

theorem forecast_sites_disagree:
  "getForecast 0 forecastNow True 7 forecastStore = ForecastResult exampleForecast \<and>
   dailyAverage exampleForecast = 100 \<and> remainingDays exampleForecast = 10 \<and>
   predictedExpenses exampleForecast = 7000 \<and>
   rat_of_int (predictedExpenses exampleForecast) / f_monthlyBudget exampleForecast * 100 = 70 \<and>
   riskLevel exampleForecast = ''medium'' \<and>
   getForecastRisk 0 forecastNow 7 (budgets forecastStore (7, getCurrentMonth 0 forecastNow))
     forecastStore = ''low'' \<and>
   forecastInsight 0 forecastNow True 7 forecastStore =
     Some (''low'', ''You're on track! You will comfortably stay within your monthly budget.'')"
  by (simp add: getForecast_def getForecastRisk_def forecastInsight_def forecast_example_dates
      forecast_example_expenses forecast_example_budget forecast_example_rounding
      sumAmounts_def exampleExpense_def exampleForecast_def generateAIMessage_def Let_def)

subsection \<open>Challenges\<close>

text \<open>As long as no top category names a member of \<open>Object.prototype\<close>, the loop over
  the top categories gives at most one challenge per category, and the request is
  answered with one to three challenges, the last of them from the General pool when
  the categories gave fewer than two.\<close>

lemma categoryChallenges_length:
  assumes "\<forall>c \<in> set cats. c \<notin> set objectPrototypeKeys"
  shows "\<exists>cs'. categoryChallenges rnd totals cats cs = Inr cs' \<and>
           length cs \<le> length cs' \<and> length cs' \<le> length cs + length cats"
  using assms
proof (induction cats arbitrary: cs)
  case Nil
  then show ?case by simp
next
  case (Cons cat cats)
  then have rest: "\<forall>c \<in> set cats. c \<notin> set objectPrototypeKeys"
    and cat: "cat \<notin> set objectPrototypeKeys" by simp_all
  show ?case
  proof (cases "map_of challengePool cat")
    case None
    then have "objGet challengePool cat = Undefined"
      using cat by (simp add: objGet_def)
    then show ?thesis using Cons.IH[OF rest, of cs] by auto
  next
    case (Some pool)
    then have g: "objGet challengePool cat = Own pool"
      by (simp add: objGet_def)
    let ?cs = "cs @ [\<lparr>ch_id = length cs + 1, ch_title = tp_title (pick pool (rnd (length cs))),
                        ch_description = tp_desc (pick pool (rnd (length cs))),
                        ch_expectedSave = expectedSaveOf (objGet totals cat),
                        ch_duration = tp_duration (pick pool (rnd (length cs))),
                        ch_difficulty = ''Medium'',
                        ch_icon = tp_icon (pick pool (rnd (length cs))),
                        ch_status = ''available''\<rparr>]"
    have "categoryChallenges rnd totals (cat # cats) cs = categoryChallenges rnd totals cats ?cs"
      by (simp add: g Let_def)
    then show ?thesis using Cons.IH[OF rest, of ?cs] by auto
  qed
qed

lemma topCategories_length: "length (topCategories totals) \<le> 3"
  by (simp add: topCategories_def)

lemma getChallenges_between_one_and_three:
  assumes "\<forall>c \<in> set (topCategories (categoryTotals
              (expensesSince uid (daysAgo 30 now) (transactions db)))). c \<notin> set objectPrototypeKeys"
  shows "\<exists>cs. getChallenges now rnd uid db = Inr cs \<and> 1 \<le> length cs \<and> length cs \<le> 3"
proof -
  let ?totals = "categoryTotals (expensesSince uid (daysAgo 30 now) (transactions db))"
  obtain cs where cs: "categoryChallenges rnd ?totals (topCategories ?totals) [] = Inr cs"
    and len: "length cs \<le> length (topCategories ?totals)"
    using categoryChallenges_length[OF assms, of rnd ?totals "[]"] by auto
  have "getChallenges now rnd uid db =
          Inr (take 3 (if length cs < 2 then cs @ [generalChallenge rnd cs] else cs))"
    by (simp add: getChallenges_def Let_def cs)
  then show ?thesis by auto
qed

lemma categoryTotals_Nil: "categoryTotals [] = []"
  by (simp add: categoryTotals_def)

lemma getChallenges_no_expense:
  assumes "expensesSince uid (daysAgo 30 now) (transactions db) = []"
  shows "getChallenges now rnd uid db = Inr [generalChallenge rnd []] \<and>
         ch_expectedSave (generalChallenge rnd []) = Some 500"
  using assms
  by (simp add: getChallenges_def categoryTotals_Nil topCategories_def sortBy_def
      generalChallenge_def Let_def)

lemma constructor_example:
  "addTransaction 0 7 constructorBody emptyStore = (Inr constructorExpense, constructorStore)"
  by (simp add: addTransaction_def newTransaction_def transaction_valid_def applyBudgetImpact_def
      constructorBody_def emptyStore_def constructorStore_def constructorExpense_def fresh_id_def
      Let_def)

text \<open>
  C10. \<open>getChallenges\<close> is to answer every request with a list of one to three
  challenges. A category is any non-empty string, and the pool of a category is looked
  up in an object literal: for the user whose only expense of the last 30 days is on the
  category \<open>constructor\<close>, the lookup answers the inherited member instead of
  \<open>undefined\<close>, the drawn challenge is \<open>undefined\<close>, and the request ends with a
  \<open>TypeError\<close> instead of a list, whatever the random source.
\<close>

theorem getChallenges_throws_on_inherited_category:
  "snd (addTransaction 0 7 constructorBody emptyStore) = constructorStore \<and>
   getChallenges forecastNow rnd 7 constructorStore =
     Inl (TypeError ''Cannot read properties of undefined (reading 'title')'')"
proof -
  have d: "daysAgo 30 forecastNow \<le> 1715774400000"
    by (rule forecast_example_dates(3))
  have "t_user constructorExpense = 7" "t_type constructorExpense = ''expense''"
    "t_date constructorExpense = 1715774400000"
    by (simp_all add: constructorExpense_def)
  then have e: "expensesSince 7 (daysAgo 30 forecastNow) (transactions constructorStore) =
             [constructorExpense]"
    using d by (simp add: expensesSince_def constructorStore_def emptyStore_def)
  have t: "categoryTotals [constructorExpense] = [(''constructor'', Str)]"
    by code_simp
  have c: "topCategories [(''constructor'', Str)] = [''constructor'']"
    by code_simp
  have g: "objGet challengePool ''constructor'' = Inherited"
    by code_simp
  show ?thesis
    by (simp add: constructor_example getChallenges_def e t c g Let_def)
qed

subsection \<open>Budget alerts\<close>

text \<open>Whenever the usage is at least 50%, a run removes nothing and adds one alert of
  type budget for the user.\<close>

lemma generateBudgetAlerts_appends:
  assumes "budgets db (castId userId, getCurrentMonth tz now) = Some b"
    and "monthlyBudget b \<noteq> 0"
    and "50 \<le> spentSoFar b / monthlyBudget b * 100"
  shows "\<exists>a. a_user a = castId userId \<and> a_type a = ''budget'' \<and>
           generateBudgetAlerts tz now userId db = db\<lparr>alerts := alerts db @ [a]\<rparr>"
proof -
  let ?m = "getCurrentMonth tz now"
  let ?usage = "spentSoFar b / monthlyBudget b * 100"
  let ?mk = "\<lambda>severity message.
      \<lparr>a_user = castId userId, a_type = ''budget'', a_severity = severity, a_message = message,
       a_budgetUsage = Some (Math_round ?usage),
       a_category = None, a_trendPercentage = None, a_isRead = False\<rparr>"
  have "\<exists>severity message.
          generateBudgetAlerts tz now userId db = db\<lparr>alerts := alerts db @ [?mk severity message]\<rparr>"
  proof (cases "100 \<le> ?usage")
    case True
    then show ?thesis using assms
      unfolding generateBudgetAlerts_def Let_def metadata_month_def by (intro exI) simp
  next
    case n100: False
    show ?thesis
    proof (cases "90 \<le> ?usage")
      case True
      then show ?thesis using assms n100
        unfolding generateBudgetAlerts_def Let_def metadata_month_def by (intro exI) simp
    next
      case n90: False
      show ?thesis
      proof (cases "75 \<le> ?usage")
        case True
        then show ?thesis using assms n100 n90
          unfolding generateBudgetAlerts_def Let_def metadata_month_def by (intro exI) simp
      next
        case False
        then show ?thesis using assms n100 n90
          unfolding generateBudgetAlerts_def Let_def metadata_month_def by (intro exI) simp
      qed
    qed
  qed
  then obtain severity message where
    "generateBudgetAlerts tz now userId db = db\<lparr>alerts := alerts db @ [?mk severity message]\<rparr>"
    by blast
  then show ?thesis by (intro exI[of _ "?mk severity message"]) simp
qed

lemma budget_alerts_accumulate:
  assumes "budgets db (castId userId, getCurrentMonth tz now) = Some b"
    and "monthlyBudget b \<noteq> 0"
    and "50 \<le> spentSoFar b / monthlyBudget b * 100"
  shows "length (budgetAlertsOf (castId userId) (generateBudgetAlerts tz now userId db)) =
           length (budgetAlertsOf (castId userId) db) + 1"
  using generateBudgetAlerts_appends[OF assms] by (auto simp: budgetAlertsOf_def)

lemma budget_alert_message: "show_int 60 = ''60''"
  by code_simp

text \<open>
  C7. Two runs of the budget alert generation in succession, on a budget that is not
  changed in between and whose usage is at least 50%, are to leave exactly one alert of
  type budget for the user and the month. With the budget of 10000 of which 6000 are
  spent (60%) and no alert in the store, the first run of the service as the route calls
  it leaves one alert and the second run, a minute later, leaves two: the alert of the
  first run is stored without a month, so the \<open>deleteMany\<close> of the second run, which
  filters on \<open>metadata.month\<close>, does not remove it.
\<close>

theorem budget_alerts_duplicated:
  "budgets forecastStore (7, getCurrentMonth 0 forecastNow) =
     Some \<lparr>monthlyBudget = 10000, spentSoFar = 6000\<rparr> \<and>
   budgetAlertsOf 7 forecastStore = [] \<and>
   budgetAlertsOf 7 (triggeredBudgetAlerts 0 forecastNow 7 forecastStore) = [exampleBudgetAlert] \<and>
   budgetAlertsOf 7 (triggeredBudgetAlerts 0 (forecastNow + 60000) 7
                      (triggeredBudgetAlerts 0 forecastNow 7 forecastStore)) =
     [exampleBudgetAlert, exampleBudgetAlert] \<and>
   budgets (triggeredBudgetAlerts 0 (forecastNow + 60000) 7
             (triggeredBudgetAlerts 0 forecastNow 7 forecastStore)) = budgets forecastStore"
proof -
  have m: "getCurrentMonth 0 forecastNow = (2024, 5)"
    "getCurrentMonth 0 (forecastNow + 60000) = (2024, 5)"
    by code_simp+
  have r: "Math_round 60 = 60"
    using Math_round_of_int[of 60] by simp
  have a0: "alerts forecastStore = []"
    by (simp add: forecastStore_def exampleStore_def)
  have g1: "triggeredBudgetAlerts 0 forecastNow 7 forecastStore =
              forecastStore\<lparr>alerts := [exampleBudgetAlert]\<rparr>"
    by (simp add: triggeredBudgetAlerts_def generateBudgetAlerts_def m forecast_example_budget
        a0 r budget_alert_message exampleBudgetAlert_def Let_def)
  have g2: "triggeredBudgetAlerts 0 (forecastNow + 60000) 7 (forecastStore\<lparr>alerts := [exampleBudgetAlert]\<rparr>) =
              forecastStore\<lparr>alerts := [exampleBudgetAlert, exampleBudgetAlert]\<rparr>"
    by (simp add: triggeredBudgetAlerts_def generateBudgetAlerts_def m forecast_example_budget
        metadata_month_def r budget_alert_message exampleBudgetAlert_def Let_def)
  have a: "a_user exampleBudgetAlert = 7" "a_type exampleBudgetAlert = ''budget''"
    by (simp_all add: exampleBudgetAlert_def)
  show ?thesis
    by (simp add: g1 g2 m forecast_example_budget budgetAlertsOf_def a0 a)
qed

subsection \<open>Personality\<close>

text \<open>
  C6. The personality rules are tried in order and the first match decides: a 90-day
  expense window with at least 5 transactions, more than 5 distinct categories and more
  than 10 transactions per week (count / 12) is classified as Impulsive Spender, by
  \<open>getPersonality\<close> and by \<open>determinePersonality\<close>, whatever the later rules would say.
  (In the witness the Food share is above 30%, so the second rule matches as well.)
\<close>

theorem impulsive_spender_first:
  assumes "5 \<le> length (expensesSince uid (daysAgo 90 now) (transactions db))"
    and "5 < length (remdups (map t_category (expensesSince uid (daysAgo 90 now) (transactions db))))"
    and "10 < (of_nat (length (expensesSince uid (daysAgo 90 now) (transactions db))) :: rat) / 12"
  shows "(\<exists>p. getPersonality tz now True uid db = Inr (PersonalityResult p) \<and>
              p_type p = ''Impulsive Spender'') \<and>
         determinePersonality tz now uid db = Some ''Impulsive Spender''"
  using assms by (simp add: getPersonality_def determinePersonality_def Let_def)

theorem impulsive_spender_first_witness:
  "5 \<le> length (expensesSince 7 (daysAgo 90 forecastNow) (transactions impulsiveStore)) \<and>
   5 < length (remdups (map t_category (expensesSince 7 (daysAgo 90 forecastNow) (transactions impulsiveStore)))) \<and>
   10 < (of_nat (length (expensesSince 7 (daysAgo 90 forecastNow) (transactions impulsiveStore))) :: rat) / 12 \<and>
   find (\<lambda>c. fst c = ''Food'' \<and> exceeds (snd c) 30)
     (categoryShares (expensesSince 7 (daysAgo 90 forecastNow) (transactions impulsiveStore))) \<noteq> None \<and>
   (\<exists>p. getPersonality 0 forecastNow True 7 impulsiveStore = Inr (PersonalityResult p) \<and>
        p_type p = ''Impulsive Spender'') \<and>
   determinePersonality 0 forecastNow 7 impulsiveStore = Some ''Impulsive Spender''"
proof -
  have h1: "5 \<le> length (expensesSince 7 (daysAgo 90 forecastNow) (transactions impulsiveStore))"
    by code_simp
  have h2: "5 < length (remdups (map t_category (expensesSince 7 (daysAgo 90 forecastNow) (transactions impulsiveStore))))"
    by code_simp
  have h3: "10 < (of_nat (length (expensesSince 7 (daysAgo 90 forecastNow) (transactions impulsiveStore))) :: rat) / 12"
    by code_simp
  have h4: "find (\<lambda>c. fst c = ''Food'' \<and> exceeds (snd c) 30)
     (categoryShares (expensesSince 7 (daysAgo 90 forecastNow) (transactions impulsiveStore))) \<noteq> None"
    by code_simp
  from impulsive_spender_first[OF h1 h2 h3, of 0] h1 h2 h3 h4
  show ?thesis by blast
qed

subsection \<open>Trend alerts\<close>

lemma map_of_addGroup:
  "map_of (addGroup c a kvs) k =
     (if k = c then Some ((case map_of kvs c of None \<Rightarrow> 0 | Some v \<Rightarrow> v) + a) else map_of kvs k)"
  by (induction kvs) auto

lemma keys_addGroup: "fst ` set (addGroup c a kvs) = insert c (fst ` set kvs)"
proof (induction kvs)
  case Nil
  then show ?case by simp
next
  case (Cons kv kvs)
  then show ?case by (cases kv) (cases "fst kv = c", auto)
qed

lemma categorySum_absent: "c \<notin> t_category ` set ts \<Longrightarrow> categorySum c ts = 0"
proof -
  assume "c \<notin> t_category ` set ts"
  then have "filter (\<lambda>t. t_category t = c) ts = []"
    by (auto simp: filter_empty_conv)
  then show ?thesis by (simp add: categorySum_def)
qed

lemma distinct_addGroup: "distinct (map fst kvs) \<Longrightarrow> distinct (map fst (addGroup c a kvs))"
proof (induction kvs)
  case Nil
  then show ?case by simp
next
  case (Cons kv kvs)
  obtain k v where kv: "kv = (k, v)" by (cases kv)
  show ?case
  proof (cases "k = c")
    case True
    then show ?thesis using Cons.prems kv by simp
  next
    case False
    have "k \<notin> fst ` set (addGroup c a kvs)"
      using Cons.prems kv False by (simp add: keys_addGroup)
    then show ?thesis using Cons kv False by simp
  qed
qed

lemma foldl_addGroup:
  "map_of (foldl (\<lambda>groups t. addGroup (t_category t) (t_amount t) groups) acc ts) c =
     (if c \<in> t_category ` set ts
      then Some ((case map_of acc c of None \<Rightarrow> 0 | Some v \<Rightarrow> v) + categorySum c ts)
      else map_of acc c)"
proof (induction ts arbitrary: acc)
  case Nil
  then show ?case by simp
next
  case (Cons t ts)
  show ?case
    using categorySum_absent[of "t_category t" ts]
    by (simp add: Cons.IH map_of_addGroup add.assoc) (simp add: categorySum_def)
qed

lemma foldl_addGroup_distinct:
  "distinct (map fst acc) \<Longrightarrow>
   distinct (map fst (foldl (\<lambda>groups t. addGroup (t_category t) (t_amount t) groups) acc ts))"
  by (induction ts arbitrary: acc) (simp_all add: distinct_addGroup)

lemma map_of_groupByCategory:
  "map_of (groupByCategory ts) c =
     (if c \<in> t_category ` set ts then Some (categorySum c ts) else None)"
  by (simp add: groupByCategory_def foldl_addGroup)

lemma distinct_groupByCategory: "distinct (map fst (groupByCategory ts))"
  by (simp add: groupByCategory_def foldl_addGroup_distinct)

text \<open>Reading and writing own properties.\<close>

lemma keys_insertIndexed: "fst ` set (insertIndexed n k v obj) = insert k (fst ` set obj)"
proof (induction obj)
  case Nil
  then show ?case by simp
next
  case (Cons kv obj)
  obtain k' v' where kv: "kv = (k', v')" by (cases kv)
  show ?case using Cons by (cases "arrayIndex k'") (auto simp: kv)
qed

lemma map_of_insertIndexed:
  "k \<notin> fst ` set obj \<Longrightarrow>
   map_of (insertIndexed n k v obj) c = (if c = k then Some v else map_of obj c)"
proof (induction obj)
  case Nil
  then show ?case by simp
next
  case (Cons kv obj)
  obtain k' v' where kv: "kv = (k', v')" by (cases kv)
  show ?case using Cons by (cases "arrayIndex k'") (auto simp: kv)
qed

lemma map_of_replace:
  "map_of (map (\<lambda>kv. if fst kv = k then (k, v) else kv) obj) c =
     (if c = k \<and> map_of obj k \<noteq> None then Some v else map_of obj c)"
proof (induction obj)
  case Nil
  then show ?case by simp
next
  case (Cons kv obj)
  obtain k' v' where kv: "kv = (k', v')" by (cases kv)
  show ?case using Cons by (auto simp: kv)
qed

lemma map_of_objSet:
  "map_of (objSet obj k v) c =
     (if k = ''__proto__'' then map_of obj c else if c = k then Some v else map_of obj c)"
proof (cases "k \<in> fst ` set obj")
  case True
  then have "map_of obj k \<noteq> None" by (simp add: map_of_eq_None_iff)
  then show ?thesis using True by (simp add: objSet_def map_of_replace)
next
  case False
  then have "map_of obj k = None" by (simp add: map_of_eq_None_iff)
  then show ?thesis using False
    by (auto simp: objSet_def map_of_insertIndexed map_add_def split: option.splits)
qed

lemma foldl_objSet_distinct:
  "distinct (map fst groups) \<Longrightarrow>
   map_of (foldl (\<lambda>lastWeekMap cat. objSet lastWeekMap (fst cat) (snd cat)) acc groups) c =
     (if c = ''__proto__'' then map_of acc c
      else case map_of groups c of None \<Rightarrow> map_of acc c | Some v \<Rightarrow> Some v)"
proof (induction groups arbitrary: acc)
  case Nil
  then show ?case by simp
next
  case (Cons g groups)
  then have "fst g \<notin> fst ` set groups" by simp
  then have "map_of groups (fst g) = None" by (simp add: map_of_eq_None_iff)
  then show ?case using Cons by (cases g) (auto simp: map_of_objSet split: option.splits)
qed

lemma toMap_groupByCategory:
  "map_of (toMap (groupByCategory ts)) c =
     (if c \<noteq> ''__proto__'' \<and> c \<in> t_category ` set ts then Some (categorySum c ts) else None)"
  by (simp add: toMap_def foldl_objSet_distinct distinct_groupByCategory map_of_groupByCategory)

text \<open>The alerts that the loop adds.\<close>

lemma trendLoop_keeps: "set as \<subseteq> set (trendLoop uid m groups as)"
proof (induction groups arbitrary: as)
  case Nil
  then show ?case by simp
next
  case (Cons g groups)
  obtain c v where g: "g = (c, v)" by (cases g)
  show ?case
    using Cons.IH[of as] Cons.IH[of "as @ [x]" for x]
    by (auto simp: g Let_def split: lookup.splits)
qed

lemma trendLoop_new:
  assumes "a \<in> set (trendLoop uid m groups as)" "a \<notin> set as"
  shows "a_user a = uid \<and> a_type a = ''trend'' \<and>
         (\<exists>c lw. a_category a = Some c \<and> objGet m c = Own lw \<and> lw \<noteq> 0)"
  using assms
proof (induction groups arbitrary: as)
  case Nil
  then show ?case by simp
next
  case (Cons g groups)
  obtain c v where g: "g = (c, v)" by (cases g)
  show ?case
  proof (cases "\<exists>lw. objGet m c = Own lw \<and> lw \<noteq> 0 \<and> 20 \<le> (v - lw) / lw * 100")
    case False
    then have "trendLoop uid m (g # groups) as = trendLoop uid m groups as"
      by (auto simp: g Let_def split: lookup.splits)
    then show ?thesis using Cons by simp
  next
    case True
    then obtain lw where lw: "objGet m c = Own lw" "lw \<noteq> 0" "20 \<le> (v - lw) / lw * 100"
      by blast
    let ?new = "\<lparr>a_user = uid, a_type = ''trend'',
                  a_severity = (if 50 \<le> (v - lw) / lw * 100 then ''high'' else ''medium''),
                  a_message = ''Your '' @ c @ '' spending increased by ''
                                @ show_int (Math_round ((v - lw) / lw * 100)) @ ''% this week.'',
                  a_budgetUsage = None, a_category = Some c,
                  a_trendPercentage = Some (Math_round ((v - lw) / lw * 100)),
                  a_isRead = False\<rparr>"
    have eq: "trendLoop uid m (g # groups) as = trendLoop uid m groups (as @ [?new])"
      using lw by (simp add: g Let_def)
    show ?thesis
    proof (cases "a = ?new")
      case True
      then show ?thesis using lw by simp
    next
      case False
      then have "a \<notin> set (as @ [?new])" using Cons.prems(2) by simp
      then show ?thesis using Cons.IH[of "as @ [?new]"] Cons.prems(1) eq by simp
    qed
  qed
qed

lemma trendLoop_high:
  assumes "(c, v) \<in> set groups" "objGet m c = Own lw" "lw \<noteq> 0" "50 \<le> (v - lw) / lw * 100"
  shows "\<exists>a \<in> set (trendLoop uid m groups as).
           a_user a = uid \<and> a_type a = ''trend'' \<and> a_category a = Some c \<and>
           a_severity a = ''high'' \<and>
           a_trendPercentage a = Some (Math_round ((v - lw) / lw * 100))"
  using assms(1)
proof (induction groups arbitrary: as)
  case Nil
  then show ?case by simp
next
  case (Cons g groups)
  show ?case
  proof (cases "g = (c, v)")
    case True
    let ?new = "\<lparr>a_user = uid, a_type = ''trend'', a_severity = ''high'',
                  a_message = ''Your '' @ c @ '' spending increased by ''
                                @ show_int (Math_round ((v - lw) / lw * 100)) @ ''% this week.'',
                  a_budgetUsage = None, a_category = Some c,
                  a_trendPercentage = Some (Math_round ((v - lw) / lw * 100)),
                  a_isRead = False\<rparr>"
    have "trendLoop uid m (g # groups) as = trendLoop uid m groups (as @ [?new])"
      using True assms(2-4) by (simp add: Let_def)
    moreover have "?new \<in> set (trendLoop uid m groups (as @ [?new]))"
      using trendLoop_keeps[of "as @ [?new]" uid m groups] by auto
    ultimately show ?thesis by (intro bexI[of _ ?new]) simp_all
  next
    case False
    then have in_rest: "(c, v) \<in> set groups" using Cons.prems by simp
    obtain c' v' where g: "g = (c', v')" by (cases g)
    have "\<exists>as'. trendLoop uid m (g # groups) as = trendLoop uid m groups as'"
      by (auto simp: g Let_def split: lookup.splits)
    then show ?thesis using Cons.IH[OF in_rest] by metis
  qed
qed

lemma thisWeek_categorySum:
  "categorySum c (filter (\<lambda>t. matchesUser (ObjectId uid) (t_user t) \<and> t_type t = ''expense'' \<and>
                    now - 7 * 24 * 60 * 60 * 1000 \<le> t_date t \<and> t_date t \<le> now) ts)
     = thisWeekTotal now uid c ts"
  unfolding categorySum_def thisWeekTotal_def filter_filter
  by (rule arg_cong[where f = "\<lambda>xs. sum_list (map t_amount xs)"], rule filter_cong) auto

lemma lastWeek_categorySum:
  "categorySum c (filter (\<lambda>t. matchesUser (ObjectId uid) (t_user t) \<and> t_type t = ''expense'' \<and>
                    now - 14 * 24 * 60 * 60 * 1000 \<le> t_date t \<and>
                    t_date t < now - 7 * 24 * 60 * 60 * 1000) ts)
     = lastWeekTotal now uid c ts"
  unfolding categorySum_def lastWeekTotal_def filter_filter
  by (rule arg_cong[where f = "\<lambda>xs. sum_list (map t_amount xs)"], rule filter_cong) auto

lemma lastWeekMap_own:
  assumes "objGet (toMap (lastWeekExpenses now (ObjectId uid) ts)) c = Own lw"
  shows "lw = lastWeekTotal now uid c ts \<and> c \<noteq> ''__proto__''"
proof -
  let ?w = "filter (\<lambda>t. matchesUser (ObjectId uid) (t_user t) \<and> t_type t = ''expense'' \<and>
                    now - 14 * 24 * 60 * 60 * 1000 \<le> t_date t \<and>
                    t_date t < now - 7 * 24 * 60 * 60 * 1000) ts"
  have m: "map_of (toMap (lastWeekExpenses now (ObjectId uid) ts)) c =
             (if c \<noteq> ''__proto__'' \<and> c \<in> t_category ` set ?w then Some (categorySum c ?w) else None)"
    unfolding lastWeekExpenses_def by (rule toMap_groupByCategory)
  have "map_of (toMap (lastWeekExpenses now (ObjectId uid) ts)) c = Some lw"
    using assms by (auto simp: objGet_def split: option.splits if_splits)
  then have "c \<noteq> ''__proto__''" and "lw = categorySum c ?w"
    using m by (auto split: if_splits)
  then show ?thesis by (simp only: lastWeek_categorySum) simp
qed

lemma lastWeekMap_total:
  assumes "c \<noteq> ''__proto__''" "lastWeekTotal now uid c ts \<noteq> 0"
  shows "objGet (toMap (lastWeekExpenses now (ObjectId uid) ts)) c = Own (lastWeekTotal now uid c ts)"
proof -
  let ?w = "filter (\<lambda>t. matchesUser (ObjectId uid) (t_user t) \<and> t_type t = ''expense'' \<and>
                    now - 14 * 24 * 60 * 60 * 1000 \<le> t_date t \<and>
                    t_date t < now - 7 * 24 * 60 * 60 * 1000) ts"
  have m: "map_of (toMap (lastWeekExpenses now (ObjectId uid) ts)) c =
             (if c \<noteq> ''__proto__'' \<and> c \<in> t_category ` set ?w then Some (categorySum c ?w) else None)"
    unfolding lastWeekExpenses_def by (rule toMap_groupByCategory)
  have s: "categorySum c ?w = lastWeekTotal now uid c ts"
    by (rule lastWeek_categorySum)
  have "c \<in> t_category ` set ?w"
  proof (rule ccontr)
    assume "c \<notin> t_category ` set ?w"
    then have "categorySum c ?w = 0" by (rule categorySum_absent)
    then show False using assms(2) by (simp only: s)
  qed
  then have "map_of (toMap (lastWeekExpenses now (ObjectId uid) ts)) c =
               Some (lastWeekTotal now uid c ts)"
    using assms(1) by (simp only: m s) simp
  then show ?thesis by (simp add: objGet_def)
qed

lemma thisWeek_group:
  assumes "presentThisWeek now uid c ts"
  shows "(c, thisWeekTotal now uid c ts) \<in> set (thisWeekExpenses now (ObjectId uid) ts)"
proof -
  let ?w = "filter (\<lambda>t. matchesUser (ObjectId uid) (t_user t) \<and> t_type t = ''expense'' \<and>
                    now - 7 * 24 * 60 * 60 * 1000 \<le> t_date t \<and> t_date t \<le> now) ts"
  have "c \<in> t_category ` set ?w"
    using assms unfolding presentThisWeek_def by force
  then have "map_of (groupByCategory ?w) c = Some (categorySum c ?w)"
    by (simp only: map_of_groupByCategory if_True)
  then have "map_of (groupByCategory ?w) c = Some (thisWeekTotal now uid c ts)"
    by (simp only: thisWeek_categorySum)
  then show ?thesis
    unfolding thisWeekExpenses_def by (rule map_of_SomeD)
qed

text \<open>Called with the \<open>ObjectId\<close> of the user, the generator does what is asked of it for
  every category but \<open>__proto__\<close>, which never becomes a key of \<open>lastWeekMap\<close>: 1000 and
  then 1500 give an alert of severity high, and nothing in the week before gives none.\<close>

lemma trend_alert_with_ObjectId:
  "(c \<noteq> ''__proto__'' \<and> presentThisWeek now uid c (transactions db) \<and>
    thisWeekTotal now uid c (transactions db) = 1500 \<and>
    lastWeekTotal now uid c (transactions db) = 1000 \<longrightarrow>
      (\<exists>a \<in> set (alerts (generateTrendAlerts now (ObjectId uid) db)).
         a_user a = uid \<and> a_type a = ''trend'' \<and> a_category a = Some c \<and>
         a_severity a = ''high'' \<and> a_trendPercentage a = Some 50)) \<and>
   (lastWeekTotal now uid c (transactions db) = 0 \<or> c = ''__proto__'' \<longrightarrow>
      \<not> (\<exists>a \<in> set (alerts (generateTrendAlerts now (ObjectId uid) db)).
           a_user a = uid \<and> a_type a = ''trend'' \<and> a_category a = Some c))"
proof (intro conjI impI)
  let ?ts = "transactions db"
  let ?m = "toMap (lastWeekExpenses now (ObjectId uid) ?ts)"
  let ?kept = "filter (\<lambda>a. \<not> (a_user a = uid \<and> a_type a = ''trend'')) (alerts db)"
  have alerts: "alerts (generateTrendAlerts now (ObjectId uid) db) =
                  trendLoop uid ?m (thisWeekExpenses now (ObjectId uid) ?ts) ?kept"
    by (simp add: generateTrendAlerts_def Let_def)
  {
    assume h: "c \<noteq> ''__proto__'' \<and> presentThisWeek now uid c ?ts \<and>
               thisWeekTotal now uid c ?ts = 1500 \<and> lastWeekTotal now uid c ?ts = 1000"
    then have grp: "(c, 1500) \<in> set (thisWeekExpenses now (ObjectId uid) ?ts)"
      using thisWeek_group[of now uid c ?ts] by simp
    have lw: "objGet ?m c = Own 1000"
      using h lastWeekMap_total[of c now uid ?ts] by simp
    have "\<exists>a \<in> set (trendLoop uid ?m (thisWeekExpenses now (ObjectId uid) ?ts) ?kept).
           a_user a = uid \<and> a_type a = ''trend'' \<and> a_category a = Some c \<and>
           a_severity a = ''high'' \<and>
           a_trendPercentage a = Some (Math_round ((1500 - 1000) / 1000 * 100))"
      using trendLoop_high[of c 1500 "thisWeekExpenses now (ObjectId uid) ?ts" ?m 1000 uid ?kept] grp lw
      by simp
    then show "\<exists>a \<in> set (alerts (generateTrendAlerts now (ObjectId uid) db)).
         a_user a = uid \<and> a_type a = ''trend'' \<and> a_category a = Some c \<and>
         a_severity a = ''high'' \<and> a_trendPercentage a = Some 50"
      using Math_round_of_int[of 50] by (simp add: alerts)
  }
  {
    assume z: "lastWeekTotal now uid c ?ts = 0 \<or> c = ''__proto__''"
    show "\<not> (\<exists>a \<in> set (alerts (generateTrendAlerts now (ObjectId uid) db)).
           a_user a = uid \<and> a_type a = ''trend'' \<and> a_category a = Some c)"
    proof
      assume "\<exists>a \<in> set (alerts (generateTrendAlerts now (ObjectId uid) db)).
           a_user a = uid \<and> a_type a = ''trend'' \<and> a_category a = Some c"
      then obtain a where a: "a \<in> set (trendLoop uid ?m (thisWeekExpenses now (ObjectId uid) ?ts) ?kept)"
        and u: "a_user a = uid" "a_type a = ''trend''" and cat: "a_category a = Some c"
        using alerts by auto
      have "a \<notin> set ?kept" using u by simp
      then obtain lw where "objGet ?m c = Own lw" "lw \<noteq> 0"
        using trendLoop_new[OF a] cat by auto
      then show False using z lastWeekMap_own[of now uid ?ts c lw] by auto
    qed
  }
qed

text \<open>Called with the string, the generator removes the trend alerts of the user and
  creates none, whatever the ledger holds.\<close>

lemma trend_alerts_with_string:
  "alerts (generateTrendAlerts now (IdString uid) db) =
     filter (\<lambda>a. \<not> (a_user a = uid \<and> a_type a = ''trend'')) (alerts db)"
  by (simp add: generateTrendAlerts_def thisWeekExpenses_def groupByCategory_def Let_def)

text \<open>
  C8. A category with a total of 1000 in the window of the week before and of 1500 in
  this week's window is to get a trend alert of severity high, and a category without
  spending in the week before is to get none. In the store of the example user 7 has
  spent 1000 and then 1500 on Food. The route hands the user's id to the service as a
  string, and the \<open>$match\<close> stages of the two aggregations compare it with the stored
  \<open>ObjectId\<close>: both weeks come back empty and no trend alert is created. Called with the
  \<open>ObjectId\<close>, as the other aggregations of the repository are, the generator creates the
  alert; but even then a category named \<open>__proto__\<close> with the same totals gets none,
  because \<open>lastWeekMap\<close> is an object literal.
\<close>

theorem trend_alert_missing_for_string_id:
  "presentThisWeek forecastNow 7 ''Food'' (transactions trendStore) \<and>
   thisWeekTotal forecastNow 7 ''Food'' (transactions trendStore) = 1500 \<and>
   lastWeekTotal forecastNow 7 ''Food'' (transactions trendStore) = 1000 \<and>
   thisWeekExpenses forecastNow (IdString 7) (transactions trendStore) = [] \<and>
   lastWeekExpenses forecastNow (IdString 7) (transactions trendStore) = [] \<and>
   alerts (triggeredTrendAlerts forecastNow 7 trendStore) = [] \<and>
   alerts (generateTrendAlerts forecastNow (ObjectId 7) trendStore) = [exampleTrendAlert] \<and>
   presentThisWeek forecastNow 7 ''__proto__'' (transactions protoTrendStore) \<and>
   thisWeekTotal forecastNow 7 ''__proto__'' (transactions protoTrendStore) = 1500 \<and>
   lastWeekTotal forecastNow 7 ''__proto__'' (transactions protoTrendStore) = 1000 \<and>
   alerts (generateTrendAlerts forecastNow (ObjectId 7) protoTrendStore) = []"
proof -
  have h1: "presentThisWeek forecastNow 7 ''Food'' (transactions trendStore)"
    by code_simp
  have h2: "thisWeekTotal forecastNow 7 ''Food'' (transactions trendStore) = 1500"
    by code_simp
  have h3: "lastWeekTotal forecastNow 7 ''Food'' (transactions trendStore) = 1000"
    by code_simp
  have h4: "thisWeekExpenses forecastNow (IdString 7) (transactions trendStore) = []"
    by (simp add: thisWeekExpenses_def groupByCategory_def)
  have h5: "lastWeekExpenses forecastNow (IdString 7) (transactions trendStore) = []"
    by (simp add: lastWeekExpenses_def groupByCategory_def)
  have "alerts trendStore = []"
    by (simp add: trendStore_def)
  then have h6: "alerts (triggeredTrendAlerts forecastNow 7 trendStore) = []"
    by (simp add: triggeredTrendAlerts_def generateTrendAlerts_def h4 h5 toMap_def)
  have h7: "alerts (generateTrendAlerts forecastNow (ObjectId 7) trendStore) = [exampleTrendAlert]"
    by code_simp
  have p1: "presentThisWeek forecastNow 7 ''__proto__'' (transactions protoTrendStore)"
    by code_simp
  have p2: "thisWeekTotal forecastNow 7 ''__proto__'' (transactions protoTrendStore) = 1500"
    by code_simp
  have p3: "lastWeekTotal forecastNow 7 ''__proto__'' (transactions protoTrendStore) = 1000"
    by code_simp
  have p4: "alerts (generateTrendAlerts forecastNow (ObjectId 7) protoTrendStore) = []"
    by code_simp
  show ?thesis using h1 h2 h3 h4 h5 h6 h7 p1 p2 p3 p4 by simp
qed

subsection \<open>The aggregate under accepted requests\<close>

text \<open>Apart from the rejected edit, the aggregate follows the ledger: from a well-formed
  ledger and an aggregate that equals the live expense sum of its month, every sequence
  of requests that are all answered with success ends in such a state again. The
  requests may come from any user and touch any month.\<close>

lemma liveExpenseSum_counts:
  "liveExpenseSum tz uid m ts = sum_list (map (counts tz uid m) ts)"
  unfolding liveExpenseSum_def counts_def
  by (induction ts) simp_all

lemma sum_replace:
  assumes "distinct (map t_id ts)" "t \<in> set ts" "t_id t = i"
  shows "sum_list (map g (map (\<lambda>x. if t_id x = i then t' else x) ts)) = sum_list (map g ts) - g t + (g t' :: rat)"
  using assms
proof (induction ts)
  case Nil
  then show ?case by simp
next
  case (Cons x xs)
  show ?case
  proof (cases "x = t")
    case True
    then have "i \<notin> t_id ` set xs" using Cons.prems by auto
    then have "\<forall>y \<in> set xs. t_id y \<noteq> i" by blast
    then have "map (\<lambda>x. if t_id x = i then t' else x) xs = xs"
      by (induction xs) auto
    then show ?thesis using True Cons.prems by simp
  next
    case False
    then have "t \<in> set xs" using Cons.prems by simp
    moreover have "t_id x \<noteq> i" using Cons.prems calculation by force
    ultimately show ?thesis using Cons by simp
  qed
qed

lemma sum_remove:
  assumes "distinct (map t_id ts)" "t \<in> set ts" "t_id t = i"
  shows "sum_list (map g (filter (\<lambda>x. t_id x \<noteq> i) ts)) = sum_list (map g ts) - (g t :: rat)"
  using assms
proof (induction ts)
  case Nil
  then show ?case by simp
next
  case (Cons x xs)
  show ?case
  proof (cases "x = t")
    case True
    then have "i \<notin> t_id ` set xs" using Cons.prems by auto
    then have "\<forall>y \<in> set xs. t_id y \<noteq> i" by blast
    then have "filter (\<lambda>x. t_id x \<noteq> i) xs = xs"
      by (induction xs) auto
    then show ?thesis using True Cons.prems by simp
  next
    case False
    then have "t \<in> set xs" using Cons.prems by simp
    moreover have "t_id x \<noteq> i" using Cons.prems calculation by force
    ultimately show ?thesis using Cons by simp
  qed
qed

lemma findById_Some: "findById i ts = Some t \<Longrightarrow> t \<in> set ts \<and> t_id t = i"
  by (auto simp: findById_def find_Some_iff)

lemma counts_nonneg: "0 < t_amount t \<Longrightarrow> 0 \<le> counts tz uid m t"
  by (simp add: counts_def)

lemma sum_counts_nonneg:
  "\<forall>t \<in> set ts. 0 < t_amount t \<Longrightarrow> 0 \<le> sum_list (map (counts tz uid m) ts)"
  by (induction ts) (simp_all add: counts_nonneg)

lemma fold_max_ge: "x \<in> set xs \<Longrightarrow> x \<le> fold max xs (a::nat)"
proof (induction xs arbitrary: a)
  case Nil
  then show ?case by simp
next
  case (Cons y ys)
  have mono: "a \<le> fold max ys a" for a :: nat
  proof (induction ys arbitrary: a)
    case Nil
    then show ?case by simp
  next
    case (Cons z zs)
    have "a \<le> max z a" by simp
    also have "\<dots> \<le> fold max zs (max z a)" by (rule Cons.IH)
    finally show ?case by simp
  qed
  show ?case
  proof (cases "x = y")
    case True
    then show ?thesis using mono[of "max y a"] by simp
  next
    case False
    then show ?thesis using Cons by simp
  qed
qed

lemma fresh_id_fresh: "fresh_id ts \<notin> t_id ` set ts"
proof
  assume "fresh_id ts \<in> t_id ` set ts"
  then have "fresh_id ts \<in> set (map t_id ts)" by simp
  then have "fresh_id ts \<le> fold max (map t_id ts) 0" by (rule fold_max_ge)
  then show False by (simp add: fresh_id_def)
qed


lemma revert_key:
  assumes "revertBudgetImpact tz u t db = Inr db1" "budgets db (uid, m) = Some b"
    and "t_user t = u"
  shows "transactions db1 = transactions db \<and>
         (\<exists>b1. budgets db1 (uid, m) = Some b1 \<and>
            spentSoFar b1 =
              (if t_user t = uid \<and> t_type t = ''expense'' \<and> monthOf tz (t_date t) = m \<and> u = uid
               then clampZero (spentSoFar b - t_amount t) else spentSoFar b))"
proof (cases "t_type t = ''expense''")
  case False
  then show ?thesis using assms by (simp add: revertBudgetImpact_def)
next
  case True
  show ?thesis
  proof (cases "budgets db (u, monthOf tz (t_date t))")
    case None
    then have "db1 = db" using assms True by (simp add: revertBudgetImpact_def)
    moreover have "\<not> (monthOf tz (t_date t) = m \<and> u = uid)" using None assms(2) by auto
    ultimately show ?thesis using assms(2) by auto
  next
    case (Some b0)
    then have "db1 = db\<lparr>budgets := (budgets db)((u, monthOf tz (t_date t)) \<mapsto>
                 b0\<lparr>spentSoFar := clampZero (spentSoFar b0 - t_amount t)\<rparr>)\<rparr>"
      using assms(1) True
      by (auto simp: revertBudgetImpact_def Let_def clampZero_def dest!: Budget_save_Inr)
    then show ?thesis using assms(2,3) Some True by auto
  qed
qed

lemma apply_key:
  assumes "applyBudgetImpact tz u ty d a db = Inr db1" "budgets db (uid, m) = Some b"
  shows "transactions db1 = transactions db \<and>
         (\<exists>b1. budgets db1 (uid, m) = Some b1 \<and>
            spentSoFar b1 =
              (if u = uid \<and> ty = ''expense'' \<and> monthOf tz d = m
               then spentSoFar b + a else spentSoFar b))"
proof (cases "ty = ''expense''")
  case False
  then show ?thesis using assms by (simp add: applyBudgetImpact_def)
next
  case True
  show ?thesis
  proof (cases "budgets db (u, monthOf tz d)")
    case None
    then have "db1 = db" using assms True by (simp add: applyBudgetImpact_def)
    moreover have "\<not> (monthOf tz d = m \<and> u = uid)" using None assms(2) by auto
    ultimately show ?thesis using assms(2) by auto
  next
    case (Some b0)
    then have "db1 = db\<lparr>budgets := (budgets db)((u, monthOf tz d) \<mapsto>
                 b0\<lparr>spentSoFar := spentSoFar b0 + a\<rparr>)\<rparr>"
      using assms(1) True
      by (auto simp: applyBudgetImpact_def dest!: Budget_save_Inr)
    then show ?thesis using assms(2) Some True by auto
  qed
qed


lemma delete_accepted:
  assumes "deleteTransaction tz u i db = (Inr x, db')"
  shows "\<exists>t db1. findById i (transactions db) = Some t \<and> t_user t = u \<and>
           revertBudgetImpact tz u t db = Inr db1 \<and>
           db' = db1\<lparr>transactions := filter (\<lambda>x. t_id x \<noteq> i) (transactions db1)\<rparr>"
  using assms
  by (auto simp: deleteTransaction_def split: option.splits if_splits sum.splits)

lemma update_accepted:
  assumes "updateTransaction tz u i body db = (Inr t', db')"
  shows "\<exists>t db1. findById i (transactions db) = Some t \<and> t_user t = u \<and>
           revertBudgetImpact tz u t db = Inr db1 \<and>
           t' = updateFields body t \<and> transaction_valid t' \<and>
           applyBudgetImpact tz u (t_type t') (t_date t') (t_amount t')
             (db1\<lparr>transactions := map (\<lambda>x. if t_id x = i then t' else x) (transactions db1)\<rparr>)
             = Inr db'"
proof (cases "findById i (transactions db)")
  case None
  then show ?thesis using assms by (simp add: updateTransaction_def)
next
  case (Some t)
  then have own: "t_user t = u"
    using assms by (auto simp: updateTransaction_def split: if_splits)
  show ?thesis
  proof (cases "revertBudgetImpact tz u t db")
    case (Inl e)
    then show ?thesis using assms Some own by (simp add: updateTransaction_def)
  next
    case (Inr db1)
    then have valid: "transaction_valid (updateFields body t)"
      using assms Some own by (auto simp: updateTransaction_def Let_def split: if_splits)
    then show ?thesis
      using assms Some own Inr
      by (auto simp: updateTransaction_def Let_def split: sum.splits)
  qed
qed

lemma add_accepted:
  assumes "addTransaction tz u body db = (Inr t, db')"
  shows "\<exists>a ty c d. t = newTransaction u body db a ty c d \<and> 0 < a \<and> transaction_valid t \<and>
           applyBudgetImpact tz u ty d a (db\<lparr>transactions := transactions db @ [t]\<rparr>) = Inr db'"
proof (cases "b_amount body = None \<or> b_type body = None \<or> b_category body = None \<or> b_date body = None")
  case True
  then show ?thesis using assms by (simp add: add_None)
next
  case False
  then obtain a ty c d where
    b: "b_amount body = Some a" "b_type body = Some ty" "b_category body = Some c" "b_date body = Some d"
    by auto
  have "t = newTransaction u body db a ty c d \<and> 0 < a \<and> transaction_valid t \<and>
        applyBudgetImpact tz u ty d a (db\<lparr>transactions := transactions db @ [t]\<rparr>) = Inr db'"
    using assms unfolding add_Some[OF b]
    by (auto split: if_splits sum.splits)
  then show ?thesis by blast
qed


lemma consistentD:
  assumes "ledgerWellFormed db" "aggregateConsistent tz uid m db"
  obtains b where "budgets db (uid, m) = Some b"
    and "spentSoFar b = sum_list (map (counts tz uid m) (transactions db))"
proof -
  have "0 \<le> sum_list (map (counts tz uid m) (transactions db))"
    using assms(1) by (simp add: ledgerWellFormed_def sum_counts_nonneg)
  then show ?thesis
    using assms(2) that
    by (auto simp: aggregateConsistent_def liveExpenseSum_counts clampZero_def)
qed

lemma consistentI:
  assumes "ledgerWellFormed db" "budgets db (uid, m) = Some b"
    and "spentSoFar b = sum_list (map (counts tz uid m) (transactions db))"
  shows "aggregateConsistent tz uid m db"
proof -
  have "0 \<le> sum_list (map (counts tz uid m) (transactions db))"
    using assms(1) by (simp add: ledgerWellFormed_def sum_counts_nonneg)
  then show ?thesis
    using assms(2,3)
    by (simp add: aggregateConsistent_def liveExpenseSum_counts clampZero_def)
qed

lemma step_add:
  assumes wf: "ledgerWellFormed db" and con: "aggregateConsistent tz uid m db"
    and acc: "addTransaction tz u body db = (Inr t, db')"
  shows "ledgerWellFormed db' \<and> aggregateConsistent tz uid m db'"
proof -
  let ?ts = "transactions db"
  let ?db1 = "db\<lparr>transactions := ?ts @ [t]\<rparr>"
  obtain a ty c d where t: "t = newTransaction u body db a ty c d" and pos: "0 < a"
    and ap: "applyBudgetImpact tz u ty d a ?db1 = Inr db'"
    using add_accepted[OF acc] by blast
  obtain b where b: "budgets db (uid, m) = Some b"
    and sb: "spentSoFar b = sum_list (map (counts tz uid m) ?ts)"
    using consistentD[OF wf con] by blast
  have b1: "budgets ?db1 (uid, m) = Some b" using b by simp
  from apply_key[OF ap b1] obtain b' where ts': "transactions db' = ?ts @ [t]"
    and b': "budgets db' (uid, m) = Some b'"
    and sb': "spentSoFar b' = (if u = uid \<and> ty = ''expense'' \<and> monthOf tz d = m
                              then spentSoFar b + a else spentSoFar b)"
    by auto
  have ct: "counts tz uid m t = (if u = uid \<and> ty = ''expense'' \<and> monthOf tz d = m then a else 0)"
    by (simp add: counts_def t newTransaction_def)
  have wf': "ledgerWellFormed db'"
  proof -
    have "t_id t \<notin> t_id ` set ?ts"
      using fresh_id_fresh[of ?ts] by (simp add: t newTransaction_def)
    moreover have "t_amount t = a" by (simp add: t newTransaction_def)
    ultimately show ?thesis
      using wf pos by (auto simp: ledgerWellFormed_def ts')
  qed
  have "spentSoFar b' = sum_list (map (counts tz uid m) (transactions db'))"
    using sb sb' ct by (simp add: ts')
  then show ?thesis using wf' b' consistentI by blast
qed

lemma step_delete:
  assumes wf: "ledgerWellFormed db" and con: "aggregateConsistent tz uid m db"
    and acc: "deleteTransaction tz u i db = (Inr x, db')"
  shows "ledgerWellFormed db' \<and> aggregateConsistent tz uid m db'"
proof -
  let ?ts = "transactions db"
  obtain t db1 where f: "findById i ?ts = Some t" and own: "t_user t = u"
    and rv: "revertBudgetImpact tz u t db = Inr db1"
    and db': "db' = db1\<lparr>transactions := filter (\<lambda>x. t_id x \<noteq> i) (transactions db1)\<rparr>"
    using delete_accepted[OF acc] by blast
  obtain b where b: "budgets db (uid, m) = Some b"
    and sb: "spentSoFar b = sum_list (map (counts tz uid m) ?ts)"
    using consistentD[OF wf con] by blast
  from revert_key[OF rv b own] obtain b1 where ts1: "transactions db1 = ?ts"
    and b1: "budgets db1 (uid, m) = Some b1"
    and sb1: "spentSoFar b1 =
               (if t_user t = uid \<and> t_type t = ''expense'' \<and> monthOf tz (t_date t) = m \<and> u = uid
                then clampZero (spentSoFar b - t_amount t) else spentSoFar b)"
    by auto
  have mem: "t \<in> set ?ts" "t_id t = i" using findById_Some[OF f] by simp_all
  have dist: "distinct (map t_id ?ts)" using wf by (simp add: ledgerWellFormed_def)
  have ts': "transactions db' = filter (\<lambda>x. t_id x \<noteq> i) ?ts" by (simp add: db' ts1)
  have wf': "ledgerWellFormed db'"
    using wf by (simp add: ledgerWellFormed_def ts' distinct_map_filter)
  have rem: "sum_list (map (counts tz uid m) (transactions db')) =
               sum_list (map (counts tz uid m) ?ts) - counts tz uid m t"
    unfolding ts' by (rule sum_remove[OF dist mem])
  have nn: "0 \<le> sum_list (map (counts tz uid m) (transactions db'))"
    using wf' by (simp add: ledgerWellFormed_def sum_counts_nonneg)
  have "spentSoFar b1 = sum_list (map (counts tz uid m) (transactions db'))"
    using sb sb1 rem nn own by (auto simp: counts_def clampZero_def)
  moreover have "budgets db' (uid, m) = Some b1" using b1 by (simp add: db')
  ultimately show ?thesis using wf' consistentI by blast
qed

lemma updateFields_keeps: "t_id (updateFields body t) = t_id t" "t_user (updateFields body t) = t_user t"
  by (simp_all add: updateFields_def)

lemma map_replace_ids:
  "t_id t' = i \<Longrightarrow> map t_id (map (\<lambda>x. if t_id x = i then t' else x) ts) = map t_id ts"
  by (induction ts) auto

lemma step_update:
  assumes wf: "ledgerWellFormed db" and con: "aggregateConsistent tz uid m db"
    and acc: "updateTransaction tz u i body db = (Inr t', db')"
  shows "ledgerWellFormed db' \<and> aggregateConsistent tz uid m db'"
proof -
  let ?ts = "transactions db"
  obtain t db1 where f: "findById i ?ts = Some t" and own: "t_user t = u"
    and rv: "revertBudgetImpact tz u t db = Inr db1"
    and t': "t' = updateFields body t" and valid: "transaction_valid t'"
    and ap: "applyBudgetImpact tz u (t_type t') (t_date t') (t_amount t')
               (db1\<lparr>transactions := map (\<lambda>x. if t_id x = i then t' else x) (transactions db1)\<rparr>)
               = Inr db'"
    using update_accepted[OF acc] by blast
  obtain b where b: "budgets db (uid, m) = Some b"
    and sb: "spentSoFar b = sum_list (map (counts tz uid m) ?ts)"
    using consistentD[OF wf con] by blast
  from revert_key[OF rv b own] obtain b1 where ts1: "transactions db1 = ?ts"
    and b1: "budgets db1 (uid, m) = Some b1"
    and sb1: "spentSoFar b1 =
               (if t_user t = uid \<and> t_type t = ''expense'' \<and> monthOf tz (t_date t) = m \<and> u = uid
                then clampZero (spentSoFar b - t_amount t) else spentSoFar b)"
    by auto
  let ?db2 = "db1\<lparr>transactions := map (\<lambda>x. if t_id x = i then t' else x) (transactions db1)\<rparr>"
  have b2: "budgets ?db2 (uid, m) = Some b1" using b1 by simp
  from apply_key[OF ap b2] obtain b' where ts': "transactions db' = map (\<lambda>x. if t_id x = i then t' else x) ?ts"
    and b': "budgets db' (uid, m) = Some b'"
    and sb': "spentSoFar b' =
               (if u = uid \<and> t_type t' = ''expense'' \<and> monthOf tz (t_date t') = m
                then spentSoFar b1 + t_amount t' else spentSoFar b1)"
    by (auto simp: ts1)
  have mem: "t \<in> set ?ts" "t_id t = i" using findById_Some[OF f] by simp_all
  have dist: "distinct (map t_id ?ts)" using wf by (simp add: ledgerWellFormed_def)
  have id': "t_id t' = i" "t_user t' = u" using mem own by (simp_all add: t' updateFields_keeps)
  have pos': "0 < t_amount t'" using valid by (simp add: transaction_valid_def)
  have wf': "ledgerWellFormed db'"
    using wf pos' unfolding ledgerWellFormed_def ts' map_replace_ids[OF id'(1)] by auto
  have rep: "sum_list (map (counts tz uid m) (transactions db')) =
               sum_list (map (counts tz uid m) ?ts) - counts tz uid m t + counts tz uid m t'"
    unfolding ts' by (rule sum_replace[OF dist mem])
  have "0 \<le> sum_list (map (counts tz uid m) (filter (\<lambda>x. t_id x \<noteq> i) ?ts))"
    using wf by (simp add: ledgerWellFormed_def sum_counts_nonneg)
  then have nn: "0 \<le> sum_list (map (counts tz uid m) ?ts) - counts tz uid m t"
    by (simp add: sum_remove[OF dist mem])
  have s1: "spentSoFar b1 = sum_list (map (counts tz uid m) ?ts) - counts tz uid m t"
    using sb sb1 nn own by (auto simp: counts_def clampZero_def)
  have "spentSoFar b' = spentSoFar b1 + counts tz uid m t'"
    using sb' id' by (auto simp: counts_def)
  then have "spentSoFar b' = sum_list (map (counts tz uid m) (transactions db'))"
    using s1 rep by simp
  then show ?thesis using wf' b' consistentI by blast
qed


lemma step_handle:
  assumes "ledgerWellFormed db" "aggregateConsistent tz uid m db" "fst (handle tz r db)"
  shows "ledgerWellFormed (snd (handle tz r db)) \<and> aggregateConsistent tz uid m (snd (handle tz r db))"
proof (cases r)
  case (Add u body)
  obtain res db' where e: "addTransaction tz u body db = (res, db')" by (cases "addTransaction tz u body db")
  then obtain t where "res = Inr t"
    using assms(3) Add by (cases res) (simp_all add: succeeded_def)
  then show ?thesis using step_add[OF assms(1,2)] e Add by simp
next
  case (Delete u i)
  obtain res db' where e: "deleteTransaction tz u i db = (res, db')" by (cases "deleteTransaction tz u i db")
  then obtain x where "res = Inr x"
    using assms(3) Delete by (cases res) (simp_all add: succeeded_def)
  then show ?thesis using step_delete[OF assms(1,2)] e Delete by simp
next
  case (Update u i body)
  obtain res db' where e: "updateTransaction tz u i body db = (res, db')"
    by (cases "updateTransaction tz u i body db")
  then obtain t where "res = Inr t"
    using assms(3) Update by (cases res) (simp_all add: succeeded_def)
  then show ?thesis using step_update[OF assms(1,2)] e Update by simp
qed

text \<open>The invariant of the consistency engine, for accepted requests.\<close>

lemma consistent_after_accepted_requests:
  assumes "ledgerWellFormed db" "aggregateConsistent tz uid m db" "all_accepted tz rs db"
  shows "ledgerWellFormed (run tz rs db) \<and> aggregateConsistent tz uid m (run tz rs db)"
  using assms
proof (induction rs arbitrary: db)
  case Nil
  then show ?case by simp
next
  case (Cons r rs)
  have "ledgerWellFormed (snd (handle tz r db)) \<and> aggregateConsistent tz uid m (snd (handle tz r db))"
    using step_handle Cons.prems by simp
  then show ?case using Cons.IH Cons.prems(3) by simp
qed

text \<open>An edit whose body carries the amount 0 is not rejected: \<open>amount || transaction.amount\<close>
  reads it as absent and the stored amount stays.\<close>

lemma updateFields_zero_amount:
  "b_amount body = Some 0 \<Longrightarrow> t_amount (updateFields body t) = t_amount t"
  by (simp add: updateFields_def)

end
